theory Spec2Isabelle
  imports Complex_Main
begin

section \<open>Values exchanged with the external collaborators\<close>

text \<open>
  The language-model chain of \<^verbatim>\<open>IntentService\<close> ends in a \<^verbatim>\<open>JsonOutputParser\<close>: what
  \<^verbatim>\<open>chain.ainvoke\<close> hands back is an arbitrary parsed JSON value. A JSON object is kept
  as an association list; \<^verbatim>\<open>dict.get\<close> reads it with \<open>map_of\<close>. Document metadata holds
  values of the same kind.
\<close>

datatype json =
    JNull
  | JBool bool
  | JNum real
  | JStr string
  | JArr "json list"
  | JObj "(string \<times> json) list"

text \<open>
  Exceptions are values. \<open>Raised msg\<close> is an exception thrown by a collaborator (the
  language model, a retriever), carrying its message; the others are the Python
  exceptions the modelled code can provoke itself.
\<close>

datatype error = AttributeError | TypeError | KeyError | ValidationError | Raised string

text \<open>Python's truth value of a JSON value (\<^verbatim>\<open>not template_id\<close>).\<close>

definition truthy :: "json \<Rightarrow> bool" where
  "truthy v =
     (case v of
        JNull \<Rightarrow> False
      | JBool b \<Rightarrow> b
      | JNum r \<Rightarrow> r \<noteq> 0
      | JStr s \<Rightarrow> s \<noteq> []
      | JArr xs \<Rightarrow> xs \<noteq> []
      | JObj kv \<Rightarrow> kv \<noteq> [])"

text \<open>
  Lists and dicts are unhashable: testing them for membership in a set or in a dict
  raises \<^verbatim>\<open>TypeError\<close>.
\<close>

definition hashable :: "json \<Rightarrow> bool" where
  "hashable v = (case v of JArr xs \<Rightarrow> False | JObj kv \<Rightarrow> False | _ \<Rightarrow> True)"

text \<open>\<^verbatim>\<open>d.get(key, default)\<close>.\<close>

definition dict_get :: "(string \<times> json) list \<Rightarrow> string \<Rightarrow> json \<Rightarrow> json" where
  "dict_get d k dflt = (case map_of d k of None \<Rightarrow> dflt | Some v \<Rightarrow> v)"

section \<open>Intent classification (services/intent\_service.py)\<close>

datatype IntentType =
    CODE_SEARCH
  | CODE_EXPLAIN
  | CODE_REVIEW
  | BUG_FIX
  | REFACTOR
  | GENERAL_QA
  | CASUAL_CHAT
  | CLARIFICATION

text \<open>The string value of each member, and \<^verbatim>\<open>IntentType._value2member_map_\<close>.\<close>

fun intent_value :: "IntentType \<Rightarrow> string" where
  "intent_value CODE_SEARCH = ''code_search''"
| "intent_value CODE_EXPLAIN = ''code_explain''"
| "intent_value CODE_REVIEW = ''code_review''"
| "intent_value BUG_FIX = ''bug_fix''"
| "intent_value REFACTOR = ''refactor''"
| "intent_value GENERAL_QA = ''general_qa''"
| "intent_value CASUAL_CHAT = ''casual_chat''"
| "intent_value CLARIFICATION = ''clarification''"

definition value2member :: "string \<Rightarrow> IntentType option" where
  "value2member =
     map_of
       [(''code_search'', CODE_SEARCH),
        (''code_explain'', CODE_EXPLAIN),
        (''code_review'', CODE_REVIEW),
        (''bug_fix'', BUG_FIX),
        (''refactor'', REFACTOR),
        (''general_qa'', GENERAL_QA),
        (''casual_chat'', CASUAL_CHAT),
        (''clarification'', CLARIFICATION)]"

record IntentResult =
  intent :: IntentType
  confidence :: real
  entities :: "(string \<times> json) list"
  suggested_prompt_template :: string
  requires_clarification :: bool

definition allowed_template_ids :: "string list" where
  "allowed_template_ids =
     [''default_v1'', ''code_search_v1'', ''code_explain_v1'', ''code_review_v1'',
      ''bug_fix_v1'', ''refactor_v1'', ''general_qa_v1'', ''casual_chat_v1'']"

text \<open>
  \<^verbatim>\<open>_match_template(intent)\<close>: \<^verbatim>\<open>template_map.get(intent, "default_v1")\<close>. The argument
  is the raw label read from the classifier's output, which need not be a string; a
  hashable value that is no string is no key of the table.
\<close>

definition template_map :: "(string \<times> string) list" where
  "template_map =
     [(''code_search'', ''code_search_v1''),
      (''code_explain'', ''code_explain_v1''),
      (''code_review'', ''code_review_v1''),
      (''bug_fix'', ''bug_fix_v1''),
      (''refactor'', ''refactor_v1''),
      (''general_qa'', ''general_qa_v1''),
      (''casual_chat'', ''casual_chat_v1'')]"

definition match_template :: "json \<Rightarrow> string" where
  "match_template intent_str =
     (case intent_str of
        JStr s \<Rightarrow> (case map_of template_map s of None \<Rightarrow> ''default_v1'' | Some t \<Rightarrow> t)
      | _ \<Rightarrow> ''default_v1'')"

text \<open>
  Building the \<^verbatim>\<open>IntentResult\<close> runs pydantic's validation of \<^verbatim>\<open>confidence\<close> (float),
  \<^verbatim>\<open>entities\<close> (dict) and \<^verbatim>\<open>requires_clarification\<close> (bool); a value it rejects raises
  \<^verbatim>\<open>ValidationError\<close> inside the \<^verbatim>\<open>try\<close>. pydantic is not part of the repository, so
  what each field accepts is a parameter. \<open>wf_validators\<close> says only that a value of
  the field's own JSON type is accepted unchanged; \<open>typed_validators\<close> accepts nothing
  else.
\<close>

record validators =
  as_float :: "json \<Rightarrow> real option"
  as_dict :: "json \<Rightarrow> (string \<times> json) list option"
  as_bool :: "json \<Rightarrow> bool option"

definition wf_validators :: "validators \<Rightarrow> bool" where
  "wf_validators V \<longleftrightarrow>
     (\<forall>r. as_float V (JNum r) = Some r) \<and>
     (\<forall>d. as_dict V (JObj d) = Some d) \<and>
     (\<forall>b. as_bool V (JBool b) = Some b)"

definition typed_validators :: validators where
  "typed_validators =
     \<lparr> as_float = (\<lambda>v. case v of JNum r \<Rightarrow> Some r | _ \<Rightarrow> None),
       as_dict = (\<lambda>v. case v of JObj d \<Rightarrow> Some d | _ \<Rightarrow> None),
       as_bool = (\<lambda>v. case v of JBool b \<Rightarrow> Some b | _ \<Rightarrow> None) \<rparr>"

text \<open>
  The template id of the result (lines 96--101 of \<^verbatim>\<open>classify\<close>). The three tests are
  evaluated left to right and short-circuit; only the membership test hashes the value.
\<close>

definition resolve_template :: "json \<Rightarrow> json \<Rightarrow> error + string" where
  "resolve_template intent_str template_id =
     (if \<not> truthy template_id \<or> template_id = JStr ''template_id''
      then Inr (match_template intent_str)
      else if \<not> hashable template_id then Inl TypeError
      else (case template_id of
              JStr s \<Rightarrow> if s \<in> set allowed_template_ids then Inr s
                        else Inr (match_template intent_str)
            | _ \<Rightarrow> Inr (match_template intent_str)))"

text \<open>
  The body of the \<^verbatim>\<open>try\<close> block of \<^verbatim>\<open>IntentService.classify\<close>, given what awaiting
  \<^verbatim>\<open>self.chain.ainvoke({"query": query})\<close> produced (\<open>Inl\<close>: it raised).
\<close>

definition classify_try :: "validators \<Rightarrow> error + json \<Rightarrow> error + IntentResult" where
  "classify_try V chain_out =
     (case chain_out of
        Inl e \<Rightarrow> Inl e
      | Inr (JObj result) \<Rightarrow>
          (let intent_str = dict_get result ''intent'' (JStr ''general_qa'') in
           if \<not> hashable intent_str then Inl TypeError
           else
             let intent_enum =
                   (case intent_str of
                      JStr s \<Rightarrow> (case value2member s of Some m \<Rightarrow> m | None \<Rightarrow> GENERAL_QA)
                    | _ \<Rightarrow> GENERAL_QA)
             in
             (case resolve_template intent_str (dict_get result ''suggested_prompt_template'' JNull) of
                Inl e \<Rightarrow> Inl e
              | Inr template_id \<Rightarrow>
                  (case (as_float V (dict_get result ''confidence'' (JNum 0)),
                         as_dict V (dict_get result ''entities'' (JObj [])),
                         as_bool V (dict_get result ''requires_clarification'' (JBool False))) of
                     (Some c, Some en, Some rc) \<Rightarrow>
                       Inr \<lparr> intent = intent_enum, confidence = c, entities = en,
                             suggested_prompt_template = template_id,
                             requires_clarification = rc \<rparr>
                   | _ \<Rightarrow> Inl ValidationError)))
      | Inr _ \<Rightarrow> Inl AttributeError)"

text \<open>The result built in the \<^verbatim>\<open>except Exception\<close> branch.\<close>

definition safe_default :: IntentResult where
  "safe_default =
     \<lparr> intent = GENERAL_QA, confidence = 1 / 2, entities = [],
       suggested_prompt_template = ''general_qa_v1'', requires_clarification = False \<rparr>"

text \<open>
  \<^verbatim>\<open>IntentService.classify(query)\<close>. \<open>chain\<close> is the language-model chain as a function
  of the query. The second component lists the exceptions printed by the handler
  (\<^verbatim>\<open>print(f"Intent classification error: {e}")\<close>).
\<close>

definition classify :: "validators \<Rightarrow> (string \<Rightarrow> error + json) \<Rightarrow> string \<Rightarrow> IntentResult \<times> error list" where
  "classify V chain query =
     (case classify_try V (chain query) of
        Inr r \<Rightarrow> (r, [])
      | Inl e \<Rightarrow> (safe_default, [e]))"

section \<open>Hybrid retrieval (services/retrieval\_service.py)\<close>

text \<open>A LangChain \<^verbatim>\<open>Document\<close>: its text and its metadata dict.\<close>

record Document =
  page_content :: string
  metadata :: "(string \<times> json) list"

text \<open>
  A retriever is what \<^verbatim>\<open>retriever.ainvoke(query)\<close> yields once awaited: the documents, or
  the exception it raised. \<^verbatim>\<open>weights\<close> is the second field of the class.
\<close>

record EnsembleRetriever =
  retrievers :: "(string \<Rightarrow> error + Document list) list"
  weights :: "real list"

text \<open>
  \<^verbatim>\<open>asyncio.gather(*tasks, return_exceptions=True)\<close>: one entry per task, in the order of
  the task list, an exception standing in the place of the result of the task that
  raised it.
\<close>

definition gather :: "(string \<Rightarrow> error + Document list) list \<Rightarrow> string \<Rightarrow> (error + Document list) list" where
  "gather tasks query = map (\<lambda>retriever. retriever query) tasks"

text \<open>The loop of \<^verbatim>\<open>_rerank\<close> over \<^verbatim>\<open>docs\<close>, with its two variables.\<close>

fun rerank_loop :: "Document list \<Rightarrow> string set \<Rightarrow> Document list \<Rightarrow> Document list" where
  "rerank_loop [] seen unique_docs = unique_docs"
| "rerank_loop (doc # docs) seen unique_docs =
     (if page_content doc \<notin> seen
      then rerank_loop docs (insert (page_content doc) seen) (unique_docs @ [doc])
      else rerank_loop docs seen unique_docs)"

definition rerank :: "Document list \<Rightarrow> Document list" where
  "rerank docs = rerank_loop docs {} []"

text \<open>
  The loop over \<^verbatim>\<open>enumerate(results)\<close>: a result that is a list extends \<^verbatim>\<open>all_docs\<close>, an
  exception is passed over.
\<close>

fun extend_all :: "(error + Document list) list \<Rightarrow> Document list \<Rightarrow> Document list" where
  "extend_all [] all_docs = all_docs"
| "extend_all (Inr res # results) all_docs = extend_all results (all_docs @ res)"
| "extend_all (Inl e # results) all_docs = extend_all results all_docs"

definition aget_relevant_documents :: "EnsembleRetriever \<Rightarrow> string \<Rightarrow> Document list" where
  "aget_relevant_documents E query = rerank (extend_all (gather (retrievers E) query) [])"

text \<open>
  \<^verbatim>\<open>RetrievalService.retrieve\<close> awaits the ensemble retriever. Its callers guard the call
  with \<^verbatim>\<open>try\<close>, so its outcome has the type of a call that may raise.
\<close>

definition retrieve :: "EnsembleRetriever \<Rightarrow> string \<Rightarrow> error + Document list" where
  "retrieve E query = Inr (aget_relevant_documents E query)"

text \<open>
  The merge in the words of the specification: the documents of the sources that
  answered, flattened in registration order, of which a document is kept when no
  earlier document has the same content.
\<close>

definition flattened :: "(error + Document list) list \<Rightarrow> Document list" where
  "flattened results = concat (map (\<lambda>res. case res of Inl e \<Rightarrow> [] | Inr docs \<Rightarrow> docs) results)"

definition first_occurrences :: "Document list \<Rightarrow> Document list" where
  "first_occurrences docs =
     map (\<lambda>i. docs ! i)
       (filter (\<lambda>i. \<forall>j<i. page_content (docs ! j) \<noteq> page_content (docs ! i)) [0..<length docs])"

section \<open>The chat service (services/rag\_service.py)\<close>

text \<open>
  A \<^verbatim>\<open>ChatPromptTemplate\<close> is a list of (role, text) messages whose texts hold the
  placeholders \<^verbatim>\<open>{context}\<close> and \<^verbatim>\<open>{question}\<close>; formatting replaces each placeholder by
  the value supplied for it and raises \<^verbatim>\<open>KeyError\<close> when none is supplied.
\<close>

datatype piece = Lit string | Var string

type_synonym ChatPromptTemplate = "(string \<times> piece list) list"

fun render :: "(string \<times> string) list \<Rightarrow> piece list \<Rightarrow> error + string" where
  "render vars [] = Inr []"
| "render vars (Lit s # ps) =
     (case render vars ps of Inl e \<Rightarrow> Inl e | Inr r \<Rightarrow> Inr (s @ r))"
| "render vars (Var v # ps) =
     (case map_of vars v of
        None \<Rightarrow> Inl KeyError
      | Some x \<Rightarrow> (case render vars ps of Inl e \<Rightarrow> Inl e | Inr r \<Rightarrow> Inr (x @ r)))"

fun format_messages :: "(string \<times> string) list \<Rightarrow> ChatPromptTemplate \<Rightarrow> error + (string \<times> string) list" where
  "format_messages vars [] = Inr []"
| "format_messages vars ((role, ps) # ms) =
     (case render vars ps of
        Inl e \<Rightarrow> Inl e
      | Inr t \<Rightarrow> (case format_messages vars ms of Inl e \<Rightarrow> Inl e | Inr r \<Rightarrow> Inr ((role, t) # r)))"

definition nl :: string where
  "nl = [CHR 0x0A]"

definition default_v1 :: ChatPromptTemplate where
  "default_v1 =
     [(''system'',
       [Lit (''You are a professional code assistant.'' @ nl @
             ''Answer the question based ONLY on the following context.'' @ nl @
             ''If the answer is not in the context, say you don't know.'' @ nl @ nl @
             ''Context:'' @ nl),
        Var ''context'']),
      (''user'', [Var ''question''])]"

definition code_search_v1 :: ChatPromptTemplate where
  "code_search_v1 =
     [(''system'',
       [Lit (''You are a code search expert.'' @ nl @
             ''Based on the context provided, locate and explain the code relevant to the user's query.'' @ nl @
             ''Highlight file paths and line numbers if available.'' @ nl @ nl @
             ''Context:'' @ nl),
        Var ''context'']),
      (''user'', [Var ''question''])]"

definition code_explain_v1 :: ChatPromptTemplate where
  "code_explain_v1 =
     [(''system'',
       [Lit (''You are a code explanation expert.'' @ nl @
             ''Explain the functionality of the code provided in the context.'' @ nl @
             ''Break down complex logic into simple steps.'' @ nl @ nl @
             ''Context:'' @ nl),
        Var ''context'']),
      (''user'', [Var ''question''])]"

definition general_qa_v1 :: ChatPromptTemplate where
  "general_qa_v1 =
     [(''system'',
       [Lit (''You are a helpful technical assistant.'' @ nl @
             ''Answer the question using the provided context as a reference.'' @ nl @ nl @
             ''Context:'' @ nl),
        Var ''context'']),
      (''user'', [Var ''question''])]"

definition casual_chat_v1 :: ChatPromptTemplate where
  "casual_chat_v1 =
     [(''system'',
       [Lit (''You are a helpful technical assistant.'' @ nl @
             ''Answer the user's question directly and concisely.'')]),
      (''user'', [Var ''question''])]"

text \<open>\<^verbatim>\<open>self.prompt_templates\<close>, the mapping built in \<^verbatim>\<open>RAGService.__init__\<close>.\<close>

definition prompt_templates :: "(string \<times> ChatPromptTemplate) list" where
  "prompt_templates =
     [(''default_v1'', default_v1),
      (''code_search_v1'', code_search_v1),
      (''code_explain_v1'', code_explain_v1),
      (''general_qa_v1'', general_qa_v1),
      (''casual_chat_v1'', casual_chat_v1)]"

text \<open>
  \<^verbatim>\<open>self.prompt_templates.get(template_id, self.prompt_templates["default_v1"])\<close>: the
  default is looked up first, with a subscript.
\<close>

definition select_prompt :: "string \<Rightarrow> error + ChatPromptTemplate" where
  "select_prompt template_id =
     (case map_of prompt_templates ''default_v1'' of
        None \<Rightarrow> Inl KeyError
      | Some dflt \<Rightarrow>
          Inr (case map_of prompt_templates template_id of None \<Rightarrow> dflt | Some t \<Rightarrow> t))"

text \<open>
  The collaborators of one \<^verbatim>\<open>RAGService\<close>: the intent chain and pydantic's validation
  (both used by \<open>classify\<close>), \<^verbatim>\<open>retrieval_service.retrieve\<close>, the generation chain awaited
  whole (\<^verbatim>\<open>ainvoke\<close>) or streamed (\<^verbatim>\<open>astream\<close>: the chunks it yields, then the exception
  that ended it, if one did), and Python's \<^verbatim>\<open>str\<close> on a metadata value that is no
  string.
\<close>

record services =
  validation :: validators
  intent_chain :: "string \<Rightarrow> error + json"
  retrieval :: "string \<Rightarrow> error + Document list"
  llm_ainvoke :: "(string \<times> string) list \<Rightarrow> error + string"
  llm_astream :: "(string \<times> string) list \<Rightarrow> string list \<times> error option"
  py_str :: "json \<Rightarrow> string"

text \<open>
  The calls made to the collaborators are recorded, in order, beside the result. The
  writes to \<^verbatim>\<open>ThoughtProcessLogger\<close> and to standard output are left out: on these values
  they cannot fail, and nothing reads them back.
\<close>

datatype call =
    Classify string
  | Retrieve string
  | Generate "(string \<times> string) list"

fun join :: "string \<Rightarrow> string list \<Rightarrow> string" where
  "join sep [] = []"
| "join sep [x] = x"
| "join sep (x # y # ys) = x @ sep @ join sep (y # ys)"

definition format_docs :: "(json \<Rightarrow> string) \<Rightarrow> Document list \<Rightarrow> string" where
  "format_docs to_str docs =
     join (nl @ nl)
       (map (\<lambda>d. ''Source: '' @
                  (case dict_get (metadata d) ''source'' (JStr ''Unknown'') of
                     JStr s \<Rightarrow> s
                   | v \<Rightarrow> to_str v) @
                  nl @ ''Content: '' @ page_content d)
            docs)"

text \<open>One entry of the \<^verbatim>\<open>citations\<close> list: a dict with these three keys.\<close>

record Citation =
  c_source :: json
  c_content :: string
  c_relevance :: json

definition doc_citations :: "Document list \<Rightarrow> Citation list" where
  "doc_citations docs =
     map (\<lambda>d. \<lparr> c_source = dict_get (metadata d) ''source'' JNull,
                c_content = take 100 (page_content d) @ ''...'',
                c_relevance = dict_get (metadata d) ''score'' (JNum 0) \<rparr>)
         docs"

text \<open>The dict returned by \<^verbatim>\<open>RAGService.chat\<close>.\<close>

record ChatResult =
  res_session_id :: string
  res_response :: string
  res_intent :: IntentResult
  res_citations :: "Citation list"
  res_metadata :: "(string \<times> json) list"

text \<open>
  Step 2 of \<^verbatim>\<open>chat\<close>: the documents, the exception caught (if any), and the calls made.
\<close>

definition chat_retrieval :: "services \<Rightarrow> IntentResult \<Rightarrow> string \<Rightarrow> Document list \<times> error option \<times> call list" where
  "chat_retrieval S intent_result query =
     (if intent intent_result \<noteq> CASUAL_CHAT
      then (case retrieval S query of
              Inr docs \<Rightarrow> (docs, None, [Retrieve query])
            | Inl e \<Rightarrow> ([], Some e, [Retrieve query]))
      else ([], None, []))"

definition chat :: "services \<Rightarrow> string \<Rightarrow> string \<Rightarrow> (error + ChatResult) \<times> call list" where
  "chat S query session_id =
     (let intent_result = fst (classify (validation S) (intent_chain S) query);
          (docs, caught, rcalls) = chat_retrieval S intent_result query;
          calls = Classify query # rcalls;
          template_id = suggested_prompt_template intent_result
      in case select_prompt template_id of
           Inl e \<Rightarrow> (Inl e, calls)
         | Inr prompt_template \<Rightarrow>
             (case format_messages
                     [(''context'', format_docs (py_str S) docs), (''question'', query)]
                     prompt_template of
                Inl e \<Rightarrow> (Inl e, calls)
              | Inr messages \<Rightarrow>
                  (case llm_ainvoke S messages of
                     Inl e \<Rightarrow> (Inl e, calls @ [Generate messages])
                   | Inr response_text \<Rightarrow>
                       (Inr \<lparr> res_session_id = session_id,
                              res_response = response_text,
                              res_intent = intent_result,
                              res_citations = doc_citations docs,
                              res_metadata = [(''template_used'', JStr template_id)] \<rparr>,
                        calls @ [Generate messages]))))"

text \<open>
  A server-sent event, as the arguments handed to \<^verbatim>\<open>_format_sse(event, data)\<close>: the event
  kind and the payload dict. The text framing around \<^verbatim>\<open>json.dumps(data)\<close> is not
  modelled.
\<close>

type_synonym sse = "string \<times> json"

definition format_sse :: "string \<Rightarrow> (string \<times> json) list \<Rightarrow> sse" where
  "format_sse event data = (event, JObj data)"

text \<open>
  What a consumer that reads an event generator to its end observes: the events
  yielded, in order, the exception that ended the generator (if one did), and the
  recorded trace of what was run meanwhile.
\<close>

record 't run =
  events :: "sse list"
  raised :: "error option"
  trace :: "'t list"

text \<open>\<^verbatim>\<open>str(e)\<close>; the texts of Python's own exceptions are not modelled beyond their class.\<close>

fun str_error :: "error \<Rightarrow> string" where
  "str_error (Raised msg) = msg"
| "str_error AttributeError = ''AttributeError''"
| "str_error TypeError = ''TypeError''"
| "str_error KeyError = ''KeyError''"
| "str_error ValidationError = ''ValidationError''"

definition citation_json :: "Citation \<Rightarrow> json" where
  "citation_json c =
     JObj [(''source'', c_source c), (''content'', JStr (c_content c)),
           (''relevance'', c_relevance c)]"

definition chat_stream :: "services \<Rightarrow> string \<Rightarrow> string \<Rightarrow> call run" where
  "chat_stream S query session_id =
     (let ev_intent = [format_sse ''status'' [(''stage'', JStr ''intent_classify'')]];
          intent_result = fst (classify (validation S) (intent_chain S) query);
          ev_clarify =
            (if requires_clarification intent_result
             then [format_sse ''clarification''
                     [(''message'', JStr ''Clarification needed''), (''suggestions'', JArr [])]]
             else []);
          ev_retrieving = [format_sse ''status'' [(''stage'', JStr ''retrieving'')]];
          (docs, caught, rcalls) = chat_retrieval S intent_result query;
          ev_failed =
            (case caught of
               None \<Rightarrow> []
             | Some e \<Rightarrow>
                 [format_sse ''error'' [(''message'', JStr (''Retrieval failed: '' @ str_error e))]]);
          ev_retrieval =
            [format_sse ''retrieval''
               [(''found'', JNum (real (length docs))),
                (''sources'', JArr (map (\<lambda>d. dict_get (metadata d) ''source'' JNull) docs))]];
          calls = Classify query # rcalls;
          before = ev_intent @ ev_clarify @ ev_retrieving @ ev_failed @ ev_retrieval;
          template_id = suggested_prompt_template intent_result
      in case select_prompt template_id of
           Inl e \<Rightarrow> \<lparr> events = before, raised = Some e, trace = calls \<rparr>
         | Inr prompt_template \<Rightarrow>
             (let ev_generating = [format_sse ''status'' [(''stage'', JStr ''generating'')]] in
              case format_messages
                     [(''context'', format_docs (py_str S) docs), (''question'', query)]
                     prompt_template of
                Inl e \<Rightarrow> \<lparr> events = before @ ev_generating, raised = Some e, trace = calls \<rparr>
              | Inr messages \<Rightarrow>
                  (let (chunks, failure) = llm_astream S messages;
                       ev_tokens = map (\<lambda>chunk. format_sse ''token'' [(''content'', JStr chunk)]) chunks
                   in case failure of
                        Some e \<Rightarrow>
                          \<lparr> events = before @ ev_generating @ ev_tokens, raised = Some e,
                            trace = calls @ [Generate messages] \<rparr>
                      | None \<Rightarrow>
                          \<lparr> events = before @ ev_generating @ ev_tokens @
                                [format_sse ''done''
                                   [(''session_id'', JStr session_id),
                                    (''citations'', JArr (map citation_json (doc_citations docs)))]],
                            raised = None,
                            trace = calls @ [Generate messages] \<rparr>)))"

section \<open>The staged pipeline (engine/pipeline.py)\<close>

datatype PipelineStage =
    QUERY_PARSE
  | INTENT_CLASSIFY
  | RETRIEVE
  | RERANK
  | CONTEXT_BUILD
  | PROMPT_ASSEMBLE
  | GENERATE
  | POST_PROCESS

text \<open>
  An entry of \<^verbatim>\<open>ctx.retrieval_results\<close>: the pipeline reads \<^verbatim>\<open>r.content\<close>, \<^verbatim>\<open>r.score\<close> and
  \<^verbatim>\<open>r.metadata.get("source")\<close> of it.
\<close>

record RetrievalResult =
  content :: string
  score :: real
  result_metadata :: "(string \<times> json) list"

text \<open>
  The dataclass \<^verbatim>\<open>PipelineContext\<close>. Fields whose names are taken (by another record of
  this theory, or by Isabelle) carry the prefix \<open>ctx_\<close>.
\<close>

record PipelineContext =
  query :: string
  session_id :: string
  user_id :: "string option"
  ctx_intent :: "IntentResult option"
  retrieval_results :: "RetrievalResult list option"
  ctx_context :: "(string \<times> json) list option"
  prompt :: "(string \<times> string) list option"
  response :: "string option"
  ctx_metadata :: "(string \<times> json) list"

text \<open>
  A middleware is an object that may have a \<^verbatim>\<open>before_stage\<close> and an \<^verbatim>\<open>after_stage\<close>
  method (\<^verbatim>\<open>hasattr\<close>); a node is a callable on the context. Either may raise.
\<close>

record middleware =
  before_stage :: "(PipelineStage \<Rightarrow> PipelineContext \<Rightarrow> error + PipelineContext) option"
  after_stage :: "(PipelineStage \<Rightarrow> PipelineContext \<Rightarrow> error + PipelineContext) option"

record RAGPipeline =
  config :: "(string \<times> json) list"
  nodes :: "PipelineStage \<Rightarrow> (PipelineContext \<Rightarrow> error + PipelineContext) option"
  middlewares :: "middleware list"

fun apply_before :: "middleware list \<Rightarrow> PipelineStage \<Rightarrow> PipelineContext \<Rightarrow> error + PipelineContext" where
  "apply_before [] stage ctx = Inr ctx"
| "apply_before (m # ms) stage ctx =
     (case before_stage m of
        None \<Rightarrow> apply_before ms stage ctx
      | Some hook \<Rightarrow>
          (case hook stage ctx of Inl e \<Rightarrow> Inl e | Inr ctx' \<Rightarrow> apply_before ms stage ctx'))"

fun apply_after :: "middleware list \<Rightarrow> PipelineStage \<Rightarrow> PipelineContext \<Rightarrow> error + PipelineContext" where
  "apply_after [] stage ctx = Inr ctx"
| "apply_after (m # ms) stage ctx =
     (case after_stage m of
        None \<Rightarrow> apply_after ms stage ctx
      | Some hook \<Rightarrow>
          (case hook stage ctx of Inl e \<Rightarrow> Inl e | Inr ctx' \<Rightarrow> apply_after ms stage ctx'))"

text \<open>
  \<^verbatim>\<open>_execute_stage\<close>. The second component records the node that was called, if one
  was: the trace by which "this stage was run" is stated.
\<close>

definition execute_stage :: "RAGPipeline \<Rightarrow> PipelineStage \<Rightarrow> PipelineContext \<Rightarrow> (error + PipelineContext) \<times> PipelineStage list" where
  "execute_stage P stage ctx =
     (case nodes P stage of
        None \<Rightarrow> (Inr ctx, [])
      | Some node \<Rightarrow>
          (case apply_before (middlewares P) stage ctx of
             Inl e \<Rightarrow> (Inl e, [])
           | Inr ctx1 \<Rightarrow>
               (case node ctx1 of
                  Inl e \<Rightarrow> (Inl e, [stage])
                | Inr ctx2 \<Rightarrow> (apply_after (middlewares P) stage ctx2, [stage]))))"

text \<open>\<^verbatim>\<open>ctx = await self._execute_stage(stage, ctx)\<close> after the stages run so far.\<close>

definition then_stage :: "RAGPipeline \<Rightarrow> PipelineStage \<Rightarrow> (error + PipelineContext) \<times> PipelineStage list \<Rightarrow> (error + PipelineContext) \<times> PipelineStage list" where
  "then_stage P stage r =
     (case r of
        (Inl e, tr) \<Rightarrow> (Inl e, tr)
      | (Inr ctx, tr) \<Rightarrow>
          (case execute_stage P stage ctx of (r', tr') \<Rightarrow> (r', tr @ tr')))"

definition new_context :: "string \<Rightarrow> string \<Rightarrow> string option \<Rightarrow> PipelineContext" where
  "new_context q sid uid =
     \<lparr> query = q, session_id = sid, user_id = uid, ctx_intent = None,
       retrieval_results = None, ctx_context = None, prompt = None, response = None,
       ctx_metadata = [] \<rparr>"

text \<open>\<^verbatim>\<open>ctx.intent and ctx.intent.requires_clarification\<close>.\<close>

definition needs_clarification :: "PipelineContext \<Rightarrow> bool" where
  "needs_clarification ctx =
     (case ctx_intent ctx of None \<Rightarrow> False | Some i \<Rightarrow> requires_clarification i)"

definition execute :: "RAGPipeline \<Rightarrow> string \<Rightarrow> string \<Rightarrow> string option \<Rightarrow> (error + PipelineContext) \<times> PipelineStage list" where
  "execute P q sid uid =
     (case then_stage P INTENT_CLASSIFY
             (then_stage P QUERY_PARSE (Inr (new_context q sid uid), [])) of
        (Inl e, tr) \<Rightarrow> (Inl e, tr)
      | (Inr ctx, tr) \<Rightarrow>
          if needs_clarification ctx
          then (Inr (ctx\<lparr> response :=
                       Some ''I need more information to understand your question...'' \<rparr>),
                tr)
          else then_stage P POST_PROCESS
                 (then_stage P GENERATE
                   (then_stage P PROMPT_ASSEMBLE
                     (then_stage P CONTEXT_BUILD
                       (then_stage P RERANK
                         (then_stage P RETRIEVE (Inr ctx, tr)))))))"

definition extract_citations :: "PipelineContext \<Rightarrow> Citation list" where
  "extract_citations ctx =
     (case retrieval_results ctx of
        None \<Rightarrow> []
      | Some rs \<Rightarrow>
          map (\<lambda>r. \<lparr> c_source = dict_get (result_metadata r) ''source'' JNull,
                     c_content = take 100 (content r) @ ''...'',
                     c_relevance = JNum (score r) \<rparr>)
              rs)"

text \<open>
  \<^verbatim>\<open>_execute_stream_stage\<close>: one empty token when no \<^verbatim>\<open>GENERATE\<close> node is registered, the
  five fixed tokens otherwise; the node itself is not called.
\<close>

definition execute_stream_stage :: "RAGPipeline \<Rightarrow> PipelineContext \<Rightarrow> string list" where
  "execute_stream_stage P ctx =
     (case nodes P GENERATE of
        None \<Rightarrow> [[]]
      | Some node \<Rightarrow> [''This '', ''is '', ''a '', ''streaming '', ''response.''])"

definition execute_stream :: "RAGPipeline \<Rightarrow> string \<Rightarrow> string \<Rightarrow> string option \<Rightarrow> PipelineStage run" where
  "execute_stream P q sid uid =
     (let ev_intent = [format_sse ''status'' [(''stage'', JStr ''intent_classify'')]] in
      case execute_stage P INTENT_CLASSIFY (new_context q sid uid) of
        (Inl e, tr) \<Rightarrow> \<lparr> events = ev_intent, raised = Some e, trace = tr \<rparr>
      | (Inr ctx, tr) \<Rightarrow>
          if needs_clarification ctx
          then \<lparr> events = ev_intent @
                   [format_sse ''clarification''
                      [(''message'', JStr ''Clarification needed''), (''suggestions'', JArr [])]],
                 raised = None, trace = tr \<rparr>
          else
            (let ev_retrieving = [format_sse ''status'' [(''stage'', JStr ''retrieving'')]] in
             case then_stage P RETRIEVE (Inr ctx, tr) of
               (Inl e, tr') \<Rightarrow>
                 \<lparr> events = ev_intent @ ev_retrieving, raised = Some e, trace = tr' \<rparr>
             | (Inr ctx', tr') \<Rightarrow>
                 (let results = (case retrieval_results ctx' of None \<Rightarrow> [] | Some rs \<Rightarrow> rs);
                      ev_retrieval =
                        [format_sse ''retrieval''
                           [(''found'', JNum (real (length results))),
                            (''sources'',
                             JArr (map (\<lambda>r. dict_get (result_metadata r) ''source'' JNull) results))]];
                      ev_generating = [format_sse ''status'' [(''stage'', JStr ''generating'')]];
                      ev_tokens =
                        map (\<lambda>token. format_sse ''token'' [(''content'', JStr token)])
                          (execute_stream_stage P ctx')
                  in \<lparr> events = ev_intent @ ev_retrieving @ ev_retrieval @ ev_generating @
                         ev_tokens @
                         [format_sse ''done''
                            [(''session_id'', JStr (session_id ctx')),
                             (''citations'', JArr (map citation_json (extract_citations ctx')))]],
                       raised = None, trace = tr' \<rparr>)))"

section \<open>The order of the events of a stream\<close>

text \<open>
  The ordering required of the events a streaming execution yields: there is a first
  event and it is a \<open>status\<close> event; every \<open>token\<close> event comes after a \<open>status\<close> event
  of stage \<open>generating\<close>; a \<open>done\<close> event is the last event.
\<close>

definition event_order :: "sse list \<Rightarrow> bool" where
  "event_order evs \<longleftrightarrow>
     evs \<noteq> [] \<and> fst (hd evs) = ''status'' \<and>
     (\<forall>i<length evs. fst (evs ! i) = ''token'' \<longrightarrow>
        (\<exists>j<i. evs ! j = format_sse ''status'' [(''stage'', JStr ''generating'')])) \<and>
     (\<forall>i<length evs. fst (evs ! i) = ''done'' \<longrightarrow> Suc i = length evs)"

section \<open>Concrete collaborators for the worked examples\<close>

text \<open>
  A classifier output of the shape the prompt of \<^verbatim>\<open>IntentService\<close> asks for, and a set
  of collaborators that answer every call with fixed values: the classifier output
  and the retrieval outcome are given, the generation chain always answers.
\<close>

definition classifier_reply :: "string \<Rightarrow> real \<Rightarrow> string \<Rightarrow> bool \<Rightarrow> json" where
  "classifier_reply label conf template_id clarify =
     JObj [(''intent'', JStr label), (''confidence'', JNum conf), (''entities'', JObj []),
           (''suggested_prompt_template'', JStr template_id),
           (''requires_clarification'', JBool clarify)]"

definition stub_services :: "error + json \<Rightarrow> error + Document list \<Rightarrow> services" where
  "stub_services classifier_out retrieval_out =
     \<lparr> validation = typed_validators,
       intent_chain = (\<lambda>q. classifier_out),
       retrieval = (\<lambda>q. retrieval_out),
       llm_ainvoke = (\<lambda>msgs. Inr ''It parses the header.''),
       llm_astream = (\<lambda>msgs. ([''It '', ''parses.''], None)),
       py_str = (\<lambda>v. ''None'') \<rparr>"

text \<open>
  A pipeline with three registered nodes and no middleware: the intent node stores a
  given intent result, the retrieve node a given result list, the generate node a
  fixed answer.
\<close>

definition stub_pipeline :: "IntentResult \<Rightarrow> RetrievalResult list \<Rightarrow> RAGPipeline" where
  "stub_pipeline ir rs =
     \<lparr> config = [],
       nodes =
         (\<lambda>stage. case stage of
            INTENT_CLASSIFY \<Rightarrow> Some (\<lambda>ctx. Inr (ctx\<lparr> ctx_intent := Some ir \<rparr>))
          | RETRIEVE \<Rightarrow> Some (\<lambda>ctx. Inr (ctx\<lparr> retrieval_results := Some rs \<rparr>))
          | GENERATE \<Rightarrow> Some (\<lambda>ctx. Inr (ctx\<lparr> response := Some ''It parses the header.'' \<rparr>))
          | _ \<Rightarrow> None),
       middlewares = [] \<rparr>"

text \<open>
  An ensemble of two sources that answer, and the collaborators of a \<^verbatim>\<open>RAGService\<close> as
  its constructor wires them: the retrieval service is \<open>retrieve\<close> on an ensemble.
  The classifier output and the outcome of the generation stream are given.
\<close>

definition stub_ensemble :: EnsembleRetriever where
  "stub_ensemble =
     \<lparr> retrievers =
         [\<lambda>q. Inr [\<lparr> page_content = ''alpha'', metadata = [(''source'', JStr ''a.py'')] \<rparr>],
          \<lambda>q. Inr [\<lparr> page_content = ''beta'', metadata = [(''source'', JStr ''b.py'')] \<rparr>]],
       weights = [7 / 10, 3 / 10] \<rparr>"

definition wired_services :: "error + json \<Rightarrow> EnsembleRetriever \<Rightarrow> string list \<times> error option \<Rightarrow> services" where
  "wired_services classifier_out E stream_out =
     \<lparr> validation = typed_validators,
       intent_chain = (\<lambda>q. classifier_out),
       retrieval = retrieve E,
       llm_ainvoke = (\<lambda>msgs. Inr ''It parses the header.''),
       llm_astream = (\<lambda>msgs. stream_out),
       py_str = (\<lambda>v. ''None'') \<rparr>"

section \<open>Properties of intent classification\<close>

lemma match_template_allowed: "match_template l \<in> set allowed_template_ids"
  by (auto simp: match_template_def template_map_def allowed_template_ids_def split: json.splits)

lemma resolve_template_recomputed:
  assumes "resolve_template l t = Inr s" and "t \<notin> JStr ` set allowed_template_ids"
  shows "s = match_template l"
  using assms by (auto simp: resolve_template_def split: if_splits json.splits)

lemma classify_try_InrD:
  assumes "classify_try V out = Inr r"
  shows "\<exists>d. out = Inr (JObj d) \<and>
     hashable (dict_get d ''intent'' (JStr ''general_qa'')) \<and>
     resolve_template (dict_get d ''intent'' (JStr ''general_qa''))
        (dict_get d ''suggested_prompt_template'' JNull) = Inr (suggested_prompt_template r) \<and>
     as_float V (dict_get d ''confidence'' (JNum 0)) = Some (confidence r) \<and>
     as_dict V (dict_get d ''entities'' (JObj [])) = Some (entities r) \<and>
     as_bool V (dict_get d ''requires_clarification'' (JBool False)) = Some (requires_clarification r) \<and>
     intent r = (case dict_get d ''intent'' (JStr ''general_qa'') of
                      JStr s \<Rightarrow> (case value2member s of Some m \<Rightarrow> m | None \<Rightarrow> GENERAL_QA)
                    | _ \<Rightarrow> GENERAL_QA)"
proof (cases out)
  case (Inl e)
  with assms show ?thesis by (simp add: classify_try_def)
next
  case (Inr j)
  show ?thesis
  proof (cases j)
    case (JObj d)
    let ?l = "dict_get d ''intent'' (JStr ''general_qa'')"
    from assms Inr JObj have h: "hashable ?l"
      by (simp add: classify_try_def Let_def split: if_splits)
    from assms Inr JObj h obtain t where
      t: "resolve_template ?l (dict_get d ''suggested_prompt_template'' JNull) = Inr t"
      by (cases "resolve_template ?l (dict_get d ''suggested_prompt_template'' JNull)")
         (simp_all add: classify_try_def Let_def)
    from assms Inr JObj h t show ?thesis
      by (simp add: classify_try_def Let_def split: option.splits) auto
  qed (use assms Inr in \<open>simp_all add: classify_try_def\<close>)
qed

lemma classify_success: "classify_try V (chain q) = Inr r \<Longrightarrow> classify V chain q = (r, [])"
  by (simp add: classify_def)

lemma classify_failure: "classify_try V (chain q) = Inl e \<Longrightarrow> classify V chain q = (safe_default, [e])"
  by (simp add: classify_def)

lemma value2member_intent_value: "value2member (intent_value m) = Some m"
  by (cases m) (simp_all add: value2member_def)

text \<open>
  C1 (as stated, refuted). The claim: whenever the confidence of the result of
  \<open>classify\<close> is below 0.7, its \<open>requires_clarification\<close> is true, whatever the
  classifier reported. The code copies the flag the classifier reported: a classifier
  that reports confidence 0.69 and \<open>requires_clarification = false\<close> gets a result
  with confidence below 0.7 and the flag false.
\<close>

theorem classify_low_confidence_counterexample:
  "confidence (fst (classify typed_validators
       (\<lambda>q. Inr (JObj [(''intent'', JStr ''bug_fix''), (''confidence'', JNum (69 / 100)),
                        (''entities'', JObj []), (''suggested_prompt_template'', JStr ''bug_fix_v1''),
                        (''requires_clarification'', JBool False)])) ''why does it crash'')) < 7 / 10
   \<and> \<not> requires_clarification (fst (classify typed_validators
       (\<lambda>q. Inr (JObj [(''intent'', JStr ''bug_fix''), (''confidence'', JNum (69 / 100)),
                        (''entities'', JObj []), (''suggested_prompt_template'', JStr ''bug_fix_v1''),
                        (''requires_clarification'', JBool False)])) ''why does it crash''))"
  by (simp add: classify_def classify_try_def dict_get_def hashable_def value2member_def
      resolve_template_def truthy_def allowed_template_ids_def typed_validators_def)

text \<open>
  C1 (amended). \<open>classify\<close> does not compare the confidence with 0.7. When the body of
  the \<open>try\<close> succeeds, the result carries the \<open>requires_clarification\<close> flag the
  classifier reported (false when the key is missing) and the confidence it reported
  (0 when the key is missing); when it fails, the result has confidence 0.5 and the
  flag false. In particular a reported confidence of 0.70 with a reported flag of
  false gives false.
\<close>

theorem classify_clarification_as_reported:
  assumes "wf_validators V"
  shows "(classify_try V (chain q) = Inr r \<longrightarrow>
            fst (classify V chain q) = r \<and>
            (\<exists>d. chain q = Inr (JObj d) \<and>
               (\<forall>b. map_of d ''requires_clarification'' = Some (JBool b) \<longrightarrow> requires_clarification r = b) \<and>
               (map_of d ''requires_clarification'' = None \<longrightarrow> \<not> requires_clarification r) \<and>
               (\<forall>c. map_of d ''confidence'' = Some (JNum c) \<longrightarrow> confidence r = c) \<and>
               (map_of d ''confidence'' = None \<longrightarrow> confidence r = 0))) \<and>
         (classify_try V (chain q) = Inl e \<longrightarrow>
            confidence (fst (classify V chain q)) = 1 / 2 \<and>
            \<not> requires_clarification (fst (classify V chain q)))"
proof (intro conjI impI)
  assume ok: "classify_try V (chain q) = Inr r"
  then show "fst (classify V chain q) = r" by (simp add: classify_success)
  from classify_try_InrD [OF ok] obtain d where
    d: "chain q = Inr (JObj d)" and
    c: "as_float V (dict_get d ''confidence'' (JNum 0)) = Some (confidence r)" and
    b: "as_bool V (dict_get d ''requires_clarification'' (JBool False)) = Some (requires_clarification r)"
    by blast
  from assms have f: "\<And>x. as_float V (JNum x) = Some x" and g: "\<And>x. as_bool V (JBool x) = Some x"
    by (simp_all add: wf_validators_def)
  from c b show "\<exists>d. chain q = Inr (JObj d) \<and>
               (\<forall>b. map_of d ''requires_clarification'' = Some (JBool b) \<longrightarrow> requires_clarification r = b) \<and>
               (map_of d ''requires_clarification'' = None \<longrightarrow> \<not> requires_clarification r) \<and>
               (\<forall>c. map_of d ''confidence'' = Some (JNum c) \<longrightarrow> confidence r = c) \<and>
               (map_of d ''confidence'' = None \<longrightarrow> confidence r = 0)"
    by (intro exI [of _ d]) (auto simp: d dict_get_def f g)
next
  assume "classify_try V (chain q) = Inl e"
  then have "classify V chain q = (safe_default, [e])" by (rule classify_failure)
  then show "confidence (fst (classify V chain q)) = 1 / 2" 
    and "\<not> requires_clarification (fst (classify V chain q))"
    by (simp_all add: safe_default_def)
qed

theorem classify_clarification_as_reported_witness:
  "wf_validators typed_validators \<and>
   confidence (fst (classify typed_validators
       (\<lambda>q. Inr (JObj [(''intent'', JStr ''code_explain''), (''confidence'', JNum (7 / 10)),
                        (''entities'', JObj []), (''suggested_prompt_template'', JStr ''code_explain_v1''),
                        (''requires_clarification'', JBool False)])) ''what does f do'')) = 7 / 10 \<and>
   \<not> requires_clarification (fst (classify typed_validators
       (\<lambda>q. Inr (JObj [(''intent'', JStr ''code_explain''), (''confidence'', JNum (7 / 10)),
                        (''entities'', JObj []), (''suggested_prompt_template'', JStr ''code_explain_v1''),
                        (''requires_clarification'', JBool False)])) ''what does f do''))"
proof -
  let ?chain = "\<lambda>q::string. (Inr (JObj [(''intent'', JStr ''code_explain''), (''confidence'', JNum (7 / 10)),
                        (''entities'', JObj []), (''suggested_prompt_template'', JStr ''code_explain_v1''),
                        (''requires_clarification'', JBool False)]) :: error + json)"
  let ?r = "\<lparr> intent = CODE_EXPLAIN, confidence = 7 / 10, entities = [],
              suggested_prompt_template = ''code_explain_v1'', requires_clarification = False \<rparr>"
  have w: "wf_validators typed_validators"
    by (simp add: wf_validators_def typed_validators_def)
  have t: "classify_try typed_validators (?chain ''what does f do'') = Inr ?r"
    by (simp add: classify_try_def dict_get_def hashable_def value2member_def
        resolve_template_def truthy_def allowed_template_ids_def typed_validators_def)
  from classify_clarification_as_reported [OF w, of ?chain "''what does f do''" ?r] t w
  show ?thesis by simp
qed

text \<open>
  C6. \<open>classify\<close> has no outcome but an \<open>IntentResult\<close>: every exception of the
  \<open>try\<close> body (a failure of the language-model chain or of its output parser, a
  parsed value that is no dict, an unhashable label or template id, a field that
  validation rejects) ends in the fixed safe default, and the exception is only
  printed.
\<close>

theorem classify_failure_safe_default:
  "(chain q = Inl e \<longrightarrow> classify V chain q = (safe_default, [e])) \<and>
   (classify_try V (chain q) = Inl e \<longrightarrow> classify V chain q = (safe_default, [e])) \<and>
   (\<forall>j. chain q = Inr j \<and> j \<notin> range JObj \<longrightarrow>
        classify V chain q = (safe_default, [AttributeError])) \<and>
   (fst (classify V chain q) = safe_default \<or>
      classify_try V (chain q) = Inr (fst (classify V chain q))) \<and>
   safe_default =
     \<lparr> intent = GENERAL_QA, confidence = 1 / 2, entities = [],
       suggested_prompt_template = ''general_qa_v1'', requires_clarification = False \<rparr>"
proof (intro conjI impI allI)
  assume "chain q = Inl e"
  then have "classify_try V (chain q) = Inl e" by (simp add: classify_try_def)
  then show "classify V chain q = (safe_default, [e])" by (rule classify_failure)
next
  assume "classify_try V (chain q) = Inl e"
  then show "classify V chain q = (safe_default, [e])" by (rule classify_failure)
next
  fix j assume "chain q = Inr j \<and> j \<notin> range JObj"
  then have "classify_try V (chain q) = Inl AttributeError"
    by (cases j) (auto simp: classify_try_def)
  then show "classify V chain q = (safe_default, [AttributeError])" by (rule classify_failure)
next
  show "fst (classify V chain q) = safe_default \<or>
      classify_try V (chain q) = Inr (fst (classify V chain q))"
    by (cases "classify_try V (chain q)") (simp_all add: classify_def)
next
  show "safe_default =
     \<lparr> intent = GENERAL_QA, confidence = 1 / 2, entities = [],
       suggested_prompt_template = ''general_qa_v1'', requires_clarification = False \<rparr>"
    by (simp add: safe_default_def)
qed

theorem classify_failure_safe_default_witness:
  "classify typed_validators (\<lambda>q. Inl (Raised ''connection reset'')) ''hello'' =
     (safe_default, [Raised ''connection reset'']) \<and>
   classify typed_validators (\<lambda>q. Inr (JStr ''not json'')) ''hello'' =
     (safe_default, [AttributeError])"
  using classify_failure_safe_default
      [of "\<lambda>q. Inl (Raised ''connection reset'')" "''hello''" "Raised ''connection reset''" typed_validators]
    classify_failure_safe_default
      [of "\<lambda>q. Inr (JStr ''not json'')" "''hello''" AttributeError typed_validators]
  by auto

lemma match_template_table:
  "match_template (JStr ''code_search'') = ''code_search_v1''"
  "match_template (JStr ''code_explain'') = ''code_explain_v1''"
  "match_template (JStr ''code_review'') = ''code_review_v1''"
  "match_template (JStr ''bug_fix'') = ''bug_fix_v1''"
  "match_template (JStr ''refactor'') = ''refactor_v1''"
  "match_template (JStr ''general_qa'') = ''general_qa_v1''"
  "match_template (JStr ''casual_chat'') = ''casual_chat_v1''"
  by (simp_all add: match_template_def template_map_def)

lemma match_template_other:
  "label \<notin> JStr ` fst ` set template_map \<Longrightarrow> match_template label = ''default_v1''"
proof (cases label)
  case (JStr s)
  assume n: "label \<notin> JStr ` fst ` set template_map"
  show ?thesis
  proof (cases "map_of template_map s")
    case None
    with JStr show ?thesis by (simp add: match_template_def)
  next
    case (Some t)
    then have "(s, t) \<in> set template_map" by (rule map_of_SomeD)
    then have "s \<in> fst ` set template_map" by (rule image_eqI [rotated]) simp
    with JStr n show ?thesis by simp
  qed
qed (simp_all add: match_template_def)

text \<open>
  C7 (as stated, refuted). The claim: whenever the suggested template id is missing,
  the placeholder or not allowed, the result carries the table entry of its intent
  category. For a label outside the closed set the category of the result falls back
  to \<open>GENERAL_QA\<close>, whose table entry is \<open>general_qa_v1\<close>, but the template is looked
  up under the raw label and is \<open>default_v1\<close>.
\<close>

theorem classify_template_counterexample:
  "intent (fst (classify typed_validators
       (\<lambda>q. Inr (JObj [(''intent'', JStr ''feature_request''), (''confidence'', JNum (9 / 10)),
                        (''entities'', JObj []),
                        (''suggested_prompt_template'', JStr ''nonexistent_v1''),
                        (''requires_clarification'', JBool False)])) ''add a button'')) = GENERAL_QA \<and>
   suggested_prompt_template (fst (classify typed_validators
       (\<lambda>q. Inr (JObj [(''intent'', JStr ''feature_request''), (''confidence'', JNum (9 / 10)),
                        (''entities'', JObj []),
                        (''suggested_prompt_template'', JStr ''nonexistent_v1''),
                        (''requires_clarification'', JBool False)])) ''add a button'')) = ''default_v1'' \<and>
   match_template (JStr (intent_value GENERAL_QA)) = ''general_qa_v1''"
  by (simp add: classify_def classify_try_def dict_get_def hashable_def value2member_def
      resolve_template_def truthy_def allowed_template_ids_def typed_validators_def
      match_template_def template_map_def)

text \<open>
  C7 (amended). When the suggested template id is not one of the allowed ids (it is
  missing, empty, the placeholder, no string, or a string outside the allow-list), the
  template id of the result is the table entry of the raw intent label the classifier
  reported (\<open>general_qa\<close> when the key is missing), unless \<open>classify\<close> falls back to its
  safe default; it is always an allowed id, never the raw string. When the label is
  the name of one of the eight categories, this is the table entry of the result's
  category. The table is the one of the claim; every label that is no key of it,
  \<open>clarification\<close> included, gives \<open>default_v1\<close>.
\<close>

theorem classify_template_from_label:
  assumes "chain q = Inr (JObj d)"
    and "dict_get d ''suggested_prompt_template'' JNull \<notin> JStr ` set allowed_template_ids"
    and "label = dict_get d ''intent'' (JStr ''general_qa'')"
    and "r = fst (classify V chain q)"
  shows "(classify_try V (chain q) = Inr r \<and> suggested_prompt_template r = match_template label
            \<or> (\<exists>e. classify_try V (chain q) = Inl e) \<and> r = safe_default) \<and>
         suggested_prompt_template r \<in> set allowed_template_ids \<and>
         (\<forall>m. label = JStr (intent_value m) \<and> classify_try V (chain q) = Inr r \<longrightarrow>
              intent r = m \<and> suggested_prompt_template r = match_template (JStr (intent_value (intent r)))) \<and>
         match_template (JStr ''code_search'') = ''code_search_v1'' \<and>
         match_template (JStr ''code_explain'') = ''code_explain_v1'' \<and>
         match_template (JStr ''code_review'') = ''code_review_v1'' \<and>
         match_template (JStr ''bug_fix'') = ''bug_fix_v1'' \<and>
         match_template (JStr ''refactor'') = ''refactor_v1'' \<and>
         match_template (JStr ''general_qa'') = ''general_qa_v1'' \<and>
         match_template (JStr ''casual_chat'') = ''casual_chat_v1'' \<and>
         (label \<notin> JStr ` fst ` set template_map \<longrightarrow> match_template label = ''default_v1'')"
proof -
  have table: "match_template (JStr ''code_search'') = ''code_search_v1'' \<and>
         match_template (JStr ''code_explain'') = ''code_explain_v1'' \<and>
         match_template (JStr ''code_review'') = ''code_review_v1'' \<and>
         match_template (JStr ''bug_fix'') = ''bug_fix_v1'' \<and>
         match_template (JStr ''refactor'') = ''refactor_v1'' \<and>
         match_template (JStr ''general_qa'') = ''general_qa_v1'' \<and>
         match_template (JStr ''casual_chat'') = ''casual_chat_v1'' \<and>
         (label \<notin> JStr ` fst ` set template_map \<longrightarrow> match_template label = ''default_v1'')"
    by (simp add: match_template_table match_template_other)
  have main: "(classify_try V (chain q) = Inr r \<and> suggested_prompt_template r = match_template label
            \<or> (\<exists>e. classify_try V (chain q) = Inl e) \<and> r = safe_default) \<and>
         suggested_prompt_template r \<in> set allowed_template_ids \<and>
         (\<forall>m. label = JStr (intent_value m) \<and> classify_try V (chain q) = Inr r \<longrightarrow>
              intent r = m \<and> suggested_prompt_template r = match_template (JStr (intent_value (intent r))))"
  proof (cases "classify_try V (chain q)")
    case (Inl e)
    then have rd: "r = safe_default" using assms(4) by (simp add: classify_def)
    have "suggested_prompt_template safe_default \<in> set allowed_template_ids"
      by (simp add: safe_default_def allowed_template_ids_def)
    with Inl rd show ?thesis by simp
  next
    case (Inr r')
    then have r: "r' = r" using assms(4) by (simp add: classify_def)
    from classify_try_InrD [OF Inr] obtain d' where
      d': "chain q = Inr (JObj d')" and
      res': "resolve_template (dict_get d' ''intent'' (JStr ''general_qa''))
              (dict_get d' ''suggested_prompt_template'' JNull) = Inr (suggested_prompt_template r')" and
      int': "intent r' = (case dict_get d' ''intent'' (JStr ''general_qa'') of
                      JStr s \<Rightarrow> (case value2member s of Some m \<Rightarrow> m | None \<Rightarrow> GENERAL_QA)
                    | _ \<Rightarrow> GENERAL_QA)"
      by blast
    from d' assms(1) have dd: "d' = d" by simp
    from res' have res: "resolve_template label (dict_get d ''suggested_prompt_template'' JNull) =
              Inr (suggested_prompt_template r)"
      unfolding dd r assms(3) .
    from int' have int: "intent r = (case label of
                      JStr s \<Rightarrow> (case value2member s of Some m \<Rightarrow> m | None \<Rightarrow> GENERAL_QA)
                    | _ \<Rightarrow> GENERAL_QA)"
      unfolding dd r assms(3) .
    from resolve_template_recomputed [OF res assms(2)]
    have t: "suggested_prompt_template r = match_template label" .
    have al: "suggested_prompt_template r \<in> set allowed_template_ids"
      unfolding t by (rule match_template_allowed)
    have im: "\<forall>m. label = JStr (intent_value m) \<and> classify_try V (chain q) = Inr r \<longrightarrow>
              intent r = m \<and> suggested_prompt_template r = match_template (JStr (intent_value (intent r)))"
    proof (intro allI impI)
      fix m assume "label = JStr (intent_value m) \<and> classify_try V (chain q) = Inr r"
      then have lm: "label = JStr (intent_value m)" ..
      have "intent r = m" unfolding int lm by (simp add: value2member_intent_value)
      then show "intent r = m \<and> suggested_prompt_template r = match_template (JStr (intent_value (intent r)))"
        unfolding t lm by simp
    qed
    from Inr r have "classify_try V (chain q) = Inr r" by simp
    with t al im show ?thesis by blast
  qed
  from main table show ?thesis by (elim conjE) (intro conjI, assumption+)
qed

theorem classify_template_from_label_witness:
  "suggested_prompt_template (fst (classify typed_validators
       (\<lambda>q. Inr (JObj [(''intent'', JStr ''bug_fix''), (''confidence'', JNum (9 / 10)),
                        (''entities'', JObj []),
                        (''suggested_prompt_template'', JStr ''nonexistent_v1''),
                        (''requires_clarification'', JBool False)])) ''it crashes'')) = ''bug_fix_v1''"
proof -
  let ?d = "[(''intent'', JStr ''bug_fix''), (''confidence'', JNum (9 / 10)),
                        (''entities'', JObj []),
                        (''suggested_prompt_template'', JStr ''nonexistent_v1''),
                        (''requires_clarification'', JBool False)]"
  let ?chain = "\<lambda>q::string. (Inr (JObj ?d) :: error + json)"
  let ?r = "fst (classify typed_validators ?chain ''it crashes'')"
  have a: "dict_get ?d ''suggested_prompt_template'' JNull \<notin> JStr ` set allowed_template_ids"
    by (simp add: dict_get_def allowed_template_ids_def)
  have l: "JStr ''bug_fix'' = dict_get ?d ''intent'' (JStr ''general_qa'')"
    by (simp add: dict_get_def)
  have t: "classify_try typed_validators (?chain ''it crashes'') =
      Inr \<lparr> intent = BUG_FIX, confidence = 9 / 10, entities = [],
            suggested_prompt_template = ''bug_fix_v1'', requires_clarification = False \<rparr>"
    by (simp add: classify_try_def dict_get_def hashable_def value2member_def
      resolve_template_def truthy_def allowed_template_ids_def typed_validators_def
      match_template_def template_map_def)
  have B: "match_template (JStr ''bug_fix'') = ''bug_fix_v1''"
    by (simp add: match_template_def template_map_def)
  note th = classify_template_from_label [of ?chain "''it crashes''" ?d "JStr ''bug_fix''" ?r typed_validators, OF refl a l refl]
  from th have A: "classify_try typed_validators (?chain ''it crashes'') = Inr ?r \<and>
           suggested_prompt_template ?r = match_template (JStr ''bug_fix'')
          \<or> (\<exists>e. classify_try typed_validators (?chain ''it crashes'') = Inl e) \<and> ?r = safe_default"
    by (rule conjunct1)
  from A show ?thesis unfolding t B by simp
qed

section \<open>Properties of hybrid retrieval\<close>

lemma extend_all_flattened: "extend_all results all_docs = all_docs @ flattened results"
proof (induction results arbitrary: all_docs)
  case Nil
  show ?case by (simp add: flattened_def)
next
  case (Cons res results)
  show ?case
  proof (cases res)
    case (Inl e)
    then show ?thesis using Cons.IH [of all_docs] by (simp add: flattened_def)
  next
    case (Inr docs)
    then show ?thesis using Cons.IH [of "all_docs @ docs"] by (simp add: flattened_def)
  qed
qed

lemma rerank_loop_index:
  "rerank_loop docs seen unique_docs =
     unique_docs @
     map (\<lambda>i. docs ! i)
       (filter (\<lambda>i. page_content (docs ! i) \<notin> seen \<and>
                    (\<forall>j<i. page_content (docs ! j) \<noteq> page_content (docs ! i)))
          [0..<length docs])"
proof (induction docs arbitrary: seen unique_docs)
  case Nil
  show ?case by simp
next
  case (Cons d ds)
  have upt: "[0..<length (d # ds)] = 0 # map Suc [0..<length ds]"
    by (metis length_Cons map_Suc_upt upt_conv_Cons zero_less_Suc)
  show ?case
  proof (cases "page_content d \<in> seen")
    case True
    have "filter (\<lambda>i. page_content ((d # ds) ! i) \<notin> seen \<and>
                    (\<forall>j<i. page_content ((d # ds) ! j) \<noteq> page_content ((d # ds) ! i)))
            (map Suc [0..<length ds]) =
          map Suc (filter (\<lambda>i. page_content (ds ! i) \<notin> seen \<and>
                    (\<forall>j<i. page_content (ds ! j) \<noteq> page_content (ds ! i))) [0..<length ds])"
      unfolding filter_map using True
      by (intro arg_cong [where f = "map Suc"] filter_cong refl) (auto simp: All_less_Suc2)
    with True Cons.IH [of seen unique_docs] show ?thesis
      unfolding upt by (simp add: comp_def)
  next
    case False
    have "filter (\<lambda>i. page_content ((d # ds) ! i) \<notin> seen \<and>
                    (\<forall>j<i. page_content ((d # ds) ! j) \<noteq> page_content ((d # ds) ! i)))
            (map Suc [0..<length ds]) =
          map Suc (filter (\<lambda>i. page_content (ds ! i) \<notin> insert (page_content d) seen \<and>
                    (\<forall>j<i. page_content (ds ! j) \<noteq> page_content (ds ! i))) [0..<length ds])"
      unfolding filter_map
      by (intro arg_cong [where f = "map Suc"] filter_cong refl) (auto simp: All_less_Suc2)
    with False Cons.IH [of "insert (page_content d) seen" "unique_docs @ [d]"] show ?thesis
      unfolding upt by (simp add: comp_def)
  qed
qed

lemma rerank_first_occurrences: "rerank docs = first_occurrences docs"
  by (simp add: rerank_def first_occurrences_def rerank_loop_index)

lemma rerank_loop_distinct:
  "distinct (map page_content unique_docs) \<Longrightarrow> page_content ` set unique_docs \<subseteq> seen \<Longrightarrow>
   distinct (map page_content (rerank_loop docs seen unique_docs))"
proof (induction docs arbitrary: seen unique_docs)
  case Nil
  then show ?case by simp
next
  case (Cons d ds)
  show ?case
  proof (cases "page_content d \<in> seen")
    case True
    with Cons.IH [OF Cons.prems] show ?thesis by simp
  next
    case False
    have "distinct (map page_content (unique_docs @ [d]))"
      using Cons.prems False by auto
    moreover have "page_content ` set (unique_docs @ [d]) \<subseteq> insert (page_content d) seen"
      using Cons.prems by auto
    ultimately show ?thesis using False Cons.IH by simp
  qed
qed

lemma rerank_loop_contents:
  "page_content ` set (rerank_loop docs seen unique_docs) =
     page_content ` set unique_docs \<union> (page_content ` set docs - seen)"
proof (induction docs arbitrary: seen unique_docs)
  case Nil
  show ?case by simp
next
  case (Cons d ds)
  show ?case
  proof (cases "page_content d \<in> seen")
    case True
    with Cons.IH [of seen unique_docs] show ?thesis by auto
  next
    case False
    with Cons.IH [of "insert (page_content d) seen" "unique_docs @ [d]"] show ?thesis by auto
  qed
qed

lemma rerank_loop_subset:
  "set (rerank_loop docs seen unique_docs) \<subseteq> set unique_docs \<union> set docs"
proof (induction docs arbitrary: seen unique_docs)
  case Nil
  show ?case by simp
next
  case (Cons d ds)
  show ?case
    using Cons.IH [of seen unique_docs] Cons.IH [of "insert (page_content d) seen" "unique_docs @ [d]"]
    by auto
qed

lemma distinct_rerank: "distinct (map page_content (rerank docs))"
  unfolding rerank_def by (rule rerank_loop_distinct) simp_all

lemma contents_rerank: "page_content ` set (rerank docs) = page_content ` set docs"
  unfolding rerank_def by (simp add: rerank_loop_contents)

lemma set_rerank: "set (rerank docs) \<subseteq> set docs"
  unfolding rerank_def using rerank_loop_subset [of docs "{}" "[]"] by simp

lemma aget_flattened:
  "aget_relevant_documents E q = rerank (flattened (gather (retrievers E) q))"
  by (simp add: aget_relevant_documents_def extend_all_flattened)

lemma flattened_filter_succeeded:
  "flattened (filter (\<lambda>res. \<not> isl res) results) = flattened results"
  unfolding flattened_def
  by (induction results) (auto split: sum.splits)

lemma flattened_gather:
  "flattened (gather rs q) = concat (map (\<lambda>r. case r q of Inl e \<Rightarrow> [] | Inr ds \<Rightarrow> ds) rs)"
  by (simp add: flattened_def gather_def comp_def)

lemma set_flattened_gather:
  "set (flattened (gather rs q)) = (\<Union>r \<in> set rs. case r q of Inl e \<Rightarrow> {} | Inr ds \<Rightarrow> set ds)"
  unfolding flattened_gather by (induction rs) (auto split: sum.splits)

lemma gather_filter:
  "gather (filter (\<lambda>r. \<not> isl (r q)) rs) q = filter (\<lambda>res. \<not> isl res) (gather rs q)"
  by (simp add: gather_def filter_map comp_def)

text \<open>
  C4. The merged result is the result lists of the sources that answered, flattened in
  the order in which the retrievers are registered (the order of the results of
  \<open>gather\<close> is the order of its tasks, whichever finished first), of which exactly the
  documents with no earlier document of equal content are kept, in that order. No two
  documents of the output have equal content, and the weights have no influence on
  it.
\<close>

theorem ensemble_merge_registration_order:
  "aget_relevant_documents E q =
     first_occurrences
       (concat (map (\<lambda>r. case r q of Inl e \<Rightarrow> [] | Inr ds \<Rightarrow> ds) (retrievers E))) \<and>
   distinct (map page_content (aget_relevant_documents E q)) \<and>
   aget_relevant_documents (E\<lparr>weights := w\<rparr>) q = aget_relevant_documents E q"
proof (intro conjI)
  show "aget_relevant_documents E q =
     first_occurrences
       (concat (map (\<lambda>r. case r q of Inl e \<Rightarrow> [] | Inr ds \<Rightarrow> ds) (retrievers E)))"
    by (simp only: aget_flattened rerank_first_occurrences flattened_gather)
  show "distinct (map page_content (aget_relevant_documents E q))"
    by (simp only: aget_flattened distinct_rerank)
  show "aget_relevant_documents (E\<lparr>weights := w\<rparr>) q = aget_relevant_documents E q"
    by (simp add: aget_relevant_documents_def)
qed

theorem ensemble_merge_registration_order_witness:
  "aget_relevant_documents
     \<lparr> retrievers =
         [\<lambda>q. Inr [\<lparr> page_content = ''alpha'', metadata = [(''source'', JStr ''a.py'')] \<rparr>,
                   \<lparr> page_content = ''beta'', metadata = [(''source'', JStr ''b.py'')] \<rparr>],
          \<lambda>q. Inr [\<lparr> page_content = ''beta'', metadata = [(''source'', JStr ''c.py'')] \<rparr>,
                   \<lparr> page_content = ''gamma'', metadata = [(''source'', JStr ''d.py'')] \<rparr>]],
       weights = [3 / 10, 7 / 10] \<rparr> ''find it'' =
     [\<lparr> page_content = ''alpha'', metadata = [(''source'', JStr ''a.py'')] \<rparr>,
      \<lparr> page_content = ''beta'', metadata = [(''source'', JStr ''b.py'')] \<rparr>,
      \<lparr> page_content = ''gamma'', metadata = [(''source'', JStr ''d.py'')] \<rparr>]"
proof -
  have "first_occurrences
          [\<lparr> page_content = ''alpha'', metadata = [(''source'', JStr ''a.py'')] \<rparr>,
           \<lparr> page_content = ''beta'', metadata = [(''source'', JStr ''b.py'')] \<rparr>,
           \<lparr> page_content = ''beta'', metadata = [(''source'', JStr ''c.py'')] \<rparr>,
           \<lparr> page_content = ''gamma'', metadata = [(''source'', JStr ''d.py'')] \<rparr>] =
        [\<lparr> page_content = ''alpha'', metadata = [(''source'', JStr ''a.py'')] \<rparr>,
         \<lparr> page_content = ''beta'', metadata = [(''source'', JStr ''b.py'')] \<rparr>,
         \<lparr> page_content = ''gamma'', metadata = [(''source'', JStr ''d.py'')] \<rparr>]"
    by (simp add: first_occurrences_def upt_rec All_less_Suc numeral_eq_Suc)
  then show ?thesis
    using ensemble_merge_registration_order
      [of "\<lparr> retrievers =
         [\<lambda>q. Inr [\<lparr> page_content = ''alpha'', metadata = [(''source'', JStr ''a.py'')] \<rparr>,
                   \<lparr> page_content = ''beta'', metadata = [(''source'', JStr ''b.py'')] \<rparr>],
          \<lambda>q. Inr [\<lparr> page_content = ''beta'', metadata = [(''source'', JStr ''c.py'')] \<rparr>,
                   \<lparr> page_content = ''gamma'', metadata = [(''source'', JStr ''d.py'')] \<rparr>]],
       weights = [3 / 10, 7 / 10] \<rparr>" "''find it''" "[]"]
    by simp
qed

text \<open>
  C5. \<open>retrieve\<close> returns (it does not raise) however many sources fail. Its result is
  the deduplicated flattening of the lists of the sources that answered: it holds
  only their documents, every content they returned exactly once, and it is the
  result the same call gives with the failed sources removed from the list.
\<close>

theorem retrieve_tolerates_failed_sources:
  "(\<exists>docs. retrieve E q = Inr docs \<and>
      docs = first_occurrences
               (concat (map (\<lambda>r. case r q of Inl e \<Rightarrow> [] | Inr ds \<Rightarrow> ds) (retrievers E))) \<and>
      distinct (map page_content docs) \<and>
      set docs \<subseteq> (\<Union>r \<in> set (retrievers E). case r q of Inl e \<Rightarrow> {} | Inr ds \<Rightarrow> set ds) \<and>
      page_content ` set docs =
        page_content ` (\<Union>r \<in> set (retrievers E). case r q of Inl e \<Rightarrow> {} | Inr ds \<Rightarrow> set ds)) \<and>
   retrieve (E\<lparr>retrievers := filter (\<lambda>r. \<not> isl (r q)) (retrievers E)\<rparr>) q = retrieve E q"
proof (intro conjI exI)
  let ?docs = "aget_relevant_documents E q"
  show "retrieve E q = Inr ?docs" by (simp add: retrieve_def)
  show "?docs = first_occurrences
               (concat (map (\<lambda>r. case r q of Inl e \<Rightarrow> [] | Inr ds \<Rightarrow> ds) (retrievers E)))"
    by (simp only: aget_flattened rerank_first_occurrences flattened_gather)
  show "distinct (map page_content ?docs)"
    by (simp only: aget_flattened distinct_rerank)
  show "set ?docs \<subseteq> (\<Union>r \<in> set (retrievers E). case r q of Inl e \<Rightarrow> {} | Inr ds \<Rightarrow> set ds)"
    unfolding aget_flattened set_flattened_gather [symmetric] by (rule set_rerank)
  show "page_content ` set ?docs =
        page_content ` (\<Union>r \<in> set (retrievers E). case r q of Inl e \<Rightarrow> {} | Inr ds \<Rightarrow> set ds)"
    unfolding aget_flattened set_flattened_gather [symmetric] by (rule contents_rerank)
  show "retrieve (E\<lparr>retrievers := filter (\<lambda>r. \<not> isl (r q)) (retrievers E)\<rparr>) q = retrieve E q"
    by (simp add: retrieve_def aget_flattened gather_filter flattened_filter_succeeded)
qed

theorem retrieve_tolerates_failed_sources_witness:
  "retrieve
     \<lparr> retrievers =
         [\<lambda>q. Inl (Raised ''vector store unreachable''),
          \<lambda>q. Inr [\<lparr> page_content = ''beta'', metadata = [(''source'', JStr ''c.py'')] \<rparr>,
                   \<lparr> page_content = ''gamma'', metadata = [(''source'', JStr ''d.py'')] \<rparr>]],
       weights = [7 / 10, 3 / 10] \<rparr> ''find it'' =
     Inr [\<lparr> page_content = ''beta'', metadata = [(''source'', JStr ''c.py'')] \<rparr>,
          \<lparr> page_content = ''gamma'', metadata = [(''source'', JStr ''d.py'')] \<rparr>]"
proof -
  have "first_occurrences
          [\<lparr> page_content = ''beta'', metadata = [(''source'', JStr ''c.py'')] \<rparr>,
           \<lparr> page_content = ''gamma'', metadata = [(''source'', JStr ''d.py'')] \<rparr>] =
        [\<lparr> page_content = ''beta'', metadata = [(''source'', JStr ''c.py'')] \<rparr>,
         \<lparr> page_content = ''gamma'', metadata = [(''source'', JStr ''d.py'')] \<rparr>]"
    by (simp add: first_occurrences_def upt_rec All_less_Suc numeral_eq_Suc)
  then show ?thesis
    using retrieve_tolerates_failed_sources
      [of "\<lparr> retrievers =
         [\<lambda>q. Inl (Raised ''vector store unreachable''),
          \<lambda>q. Inr [\<lparr> page_content = ''beta'', metadata = [(''source'', JStr ''c.py'')] \<rparr>,
                   \<lparr> page_content = ''gamma'', metadata = [(''source'', JStr ''d.py'')] \<rparr>]],
       weights = [7 / 10, 3 / 10] \<rparr>" "''find it''"]
    by simp
qed

section \<open>Properties of the chat service and of the pipeline\<close>

lemma select_prompt_eq:
  "select_prompt tid = Inr (case map_of prompt_templates tid of None \<Rightarrow> default_v1 | Some t \<Rightarrow> t)"
  by (simp add: select_prompt_def prompt_templates_def)

lemma select_prompt_absent:
  "tid \<notin> set (map fst prompt_templates) \<Longrightarrow> select_prompt tid = Inr default_v1"
  unfolding select_prompt_eq by (simp add: map_of_eq_None_iff [THEN iffD2])

lemma select_prompt_member:
  "\<exists>t \<in> set (map snd prompt_templates). select_prompt tid = Inr t"
proof (cases "map_of prompt_templates tid")
  case None
  then show ?thesis unfolding select_prompt_eq by (simp add: prompt_templates_def)
next
  case (Some t)
  then have "(tid, t) \<in> set prompt_templates" by (rule map_of_SomeD)
  then have "t \<in> set (map snd prompt_templates)" by force
  with Some show ?thesis unfolding select_prompt_eq by simp
qed

lemma format_messages_templates:
  assumes "t \<in> set (map snd prompt_templates)"
  shows "\<exists>sys. format_messages [(''context'', c), (''question'', qu)] t =
            Inr [(''system'', sys), (''user'', qu)]"
proof -
  from assms consider "t = default_v1" | "t = code_search_v1" | "t = code_explain_v1"
    | "t = general_qa_v1" | "t = casual_chat_v1"
    by (auto simp: prompt_templates_def)
  then show ?thesis
  proof cases
    case 1 then show ?thesis by (simp add: default_v1_def)
  next
    case 2 then show ?thesis by (simp add: code_search_v1_def)
  next
    case 3 then show ?thesis by (simp add: code_explain_v1_def)
  next
    case 4 then show ?thesis by (simp add: general_qa_v1_def)
  next
    case 5 then show ?thesis by (simp add: casual_chat_v1_def)
  qed
qed

lemma chat_unfold:
  assumes "chat_retrieval S (fst (classify (validation S) (intent_chain S) q)) q = (docs, caught, rcalls)"
    and "select_prompt (suggested_prompt_template (fst (classify (validation S) (intent_chain S) q))) = Inr t"
    and "format_messages [(''context'', format_docs (py_str S) docs), (''question'', q)] t = Inr msgs"
  shows "chat S q sid =
     (case llm_ainvoke S msgs of
        Inl e \<Rightarrow> (Inl e, Classify q # rcalls @ [Generate msgs])
      | Inr response_text \<Rightarrow>
          (Inr \<lparr> res_session_id = sid, res_response = response_text,
                 res_intent = fst (classify (validation S) (intent_chain S) q),
                 res_citations = doc_citations docs,
                 res_metadata =
                   [(''template_used'',
                     JStr (suggested_prompt_template (fst (classify (validation S) (intent_chain S) q))))] \<rparr>,
           Classify q # rcalls @ [Generate msgs]))"
  using assms by (simp add: chat_def Let_def split: sum.splits)

lemma chat_stream_unfold:
  assumes "chat_retrieval S (fst (classify (validation S) (intent_chain S) q)) q = (docs, caught, rcalls)"
    and "select_prompt (suggested_prompt_template (fst (classify (validation S) (intent_chain S) q))) = Inr t"
    and "format_messages [(''context'', format_docs (py_str S) docs), (''question'', q)] t = Inr msgs"
    and "llm_astream S msgs = (chunks, failure)"
  shows "chat_stream S q sid =
     \<lparr> events =
         ([format_sse ''status'' [(''stage'', JStr ''intent_classify'')]] @
          (if requires_clarification (fst (classify (validation S) (intent_chain S) q))
           then [format_sse ''clarification''
                   [(''message'', JStr ''Clarification needed''), (''suggestions'', JArr [])]]
           else []) @
          [format_sse ''status'' [(''stage'', JStr ''retrieving'')]] @
          (case caught of
             None \<Rightarrow> []
           | Some e \<Rightarrow>
               [format_sse ''error'' [(''message'', JStr (''Retrieval failed: '' @ str_error e))]]) @
          [format_sse ''retrieval''
             [(''found'', JNum (real (length docs))),
              (''sources'', JArr (map (\<lambda>d. dict_get (metadata d) ''source'' JNull) docs))]]) @
         [format_sse ''status'' [(''stage'', JStr ''generating'')]] @
         map (\<lambda>chunk. format_sse ''token'' [(''content'', JStr chunk)]) chunks @
         (case failure of
            Some e \<Rightarrow> []
          | None \<Rightarrow>
              [format_sse ''done''
                 [(''session_id'', JStr sid),
                  (''citations'', JArr (map citation_json (doc_citations docs)))]]),
       raised = failure,
       trace = Classify q # rcalls @ [Generate msgs] \<rparr>"
  using assms by (simp add: chat_stream_def Let_def split: option.splits)

lemma chat_prepared:
  "\<exists>docs caught rcalls t sys.
     chat_retrieval S (fst (classify (validation S) (intent_chain S) q)) q = (docs, caught, rcalls) \<and>
     select_prompt (suggested_prompt_template (fst (classify (validation S) (intent_chain S) q))) = Inr t \<and>
     format_messages [(''context'', format_docs (py_str S) docs), (''question'', q)] t =
       Inr [(''system'', sys), (''user'', q)]"
proof -
  obtain docs caught rcalls where
    r: "chat_retrieval S (fst (classify (validation S) (intent_chain S) q)) q = (docs, caught, rcalls)"
    by (cases "chat_retrieval S (fst (classify (validation S) (intent_chain S) q)) q") blast
  from select_prompt_member obtain t where
    t: "t \<in> set (map snd prompt_templates)"
      "select_prompt (suggested_prompt_template (fst (classify (validation S) (intent_chain S) q))) = Inr t"
    by blast
  from format_messages_templates [OF t(1)] obtain sys where
    "format_messages [(''context'', format_docs (py_str S) docs), (''question'', q)] t =
       Inr [(''system'', sys), (''user'', q)]"
    by blast
  with r t(2) show ?thesis by blast
qed

lemma classify_stub:
  "classify (validation (stub_services (Inr (classifier_reply ''general_qa'' (2 / 5) ''general_qa_v1'' True)) ro))
     (intent_chain (stub_services (Inr (classifier_reply ''general_qa'' (2 / 5) ''general_qa_v1'' True)) ro)) q =
   (\<lparr> intent = GENERAL_QA, confidence = 2 / 5, entities = [],
      suggested_prompt_template = ''general_qa_v1'', requires_clarification = True \<rparr>, [])"
  by (simp add: stub_services_def classifier_reply_def classify_def classify_try_def dict_get_def
      hashable_def value2member_def resolve_template_def truthy_def allowed_template_ids_def
      typed_validators_def)

lemma execute_stage_trace: "set (snd (execute_stage P stage ctx)) \<subseteq> {stage}"
  by (simp add: execute_stage_def split: option.splits sum.splits)

lemma then_stage_trace: "set (snd (then_stage P stage r)) \<subseteq> set (snd r) \<union> {stage}"
proof (cases r)
  case (Pair res tr)
  show ?thesis
  proof (cases res)
    case (Inl e)
    with Pair show ?thesis by (auto simp: then_stage_def)
  next
    case (Inr ctx)
    obtain r' tr' where e: "execute_stage P stage ctx = (r', tr')"
      by (cases "execute_stage P stage ctx")
    with execute_stage_trace [of P stage ctx] have "set tr' \<subseteq> {stage}" by simp
    with Pair Inr e show ?thesis by (auto simp: then_stage_def)
  qed
qed

text \<open>
  C3 (as stated, refuted). The claim: whenever the intent classification sets
  \<open>requires_clarification\<close>, the complete execution stops after the intent stage,
  without retrieval or generation. \<^verbatim>\<open>RAGService.chat\<close>, the complete execution behind the
  HTTP endpoint, never reads the flag: with a classifier reply that sets it, \<open>chat\<close>
  still calls the retrieval service and the generation chain, and answers with the
  generated text.
\<close>

theorem chat_ignores_clarification_counterexample:
  "requires_clarification
     (fst (classify typed_validators
             (\<lambda>q. Inr (classifier_reply ''general_qa'' (2 / 5) ''general_qa_v1'' True)) ''fix it'')) \<and>
   snd (chat (stub_services (Inr (classifier_reply ''general_qa'' (2 / 5) ''general_qa_v1'' True)) (Inr []))
          ''fix it'' ''s1'') =
     [Classify ''fix it'', Retrieve ''fix it'',
      Generate [(''system'',
                 ''You are a helpful technical assistant.'' @ nl @
                 ''Answer the question using the provided context as a reference.'' @ nl @ nl @
                 ''Context:'' @ nl),
                (''user'', ''fix it'')]] \<and>
   fst (chat (stub_services (Inr (classifier_reply ''general_qa'' (2 / 5) ''general_qa_v1'' True)) (Inr []))
          ''fix it'' ''s1'') =
     Inr \<lparr> res_session_id = ''s1'', res_response = ''It parses the header.'',
           res_intent =
             \<lparr> intent = GENERAL_QA, confidence = 2 / 5, entities = [],
               suggested_prompt_template = ''general_qa_v1'', requires_clarification = True \<rparr>,
           res_citations = [],
           res_metadata = [(''template_used'', JStr ''general_qa_v1'')] \<rparr>"
proof -
  let ?S = "stub_services (Inr (classifier_reply ''general_qa'' (2 / 5) ''general_qa_v1'' True)) (Inr [])"
  have c: "classify typed_validators
             (\<lambda>q. Inr (classifier_reply ''general_qa'' (2 / 5) ''general_qa_v1'' True)) ''fix it'' =
           (\<lparr> intent = GENERAL_QA, confidence = 2 / 5, entities = [],
              suggested_prompt_template = ''general_qa_v1'', requires_clarification = True \<rparr>, [])"
    using classify_stub [of "Inr []" "''fix it''"] by (simp add: stub_services_def)
  have r: "chat_retrieval ?S (fst (classify (validation ?S) (intent_chain ?S) ''fix it'')) ''fix it'' =
             ([], None, [Retrieve ''fix it''])"
    unfolding classify_stub by (simp add: chat_retrieval_def stub_services_def)
  have t: "select_prompt (suggested_prompt_template
             (fst (classify (validation ?S) (intent_chain ?S) ''fix it''))) = Inr general_qa_v1"
    unfolding classify_stub by (simp add: select_prompt_def prompt_templates_def)
  have f: "format_messages [(''context'', format_docs (py_str ?S) []), (''question'', ''fix it'')]
             general_qa_v1 =
           Inr [(''system'',
                 ''You are a helpful technical assistant.'' @ nl @
                 ''Answer the question using the provided context as a reference.'' @ nl @ nl @
                 ''Context:'' @ nl),
                (''user'', ''fix it'')]"
    by (simp add: general_qa_v1_def format_docs_def)
  have l: "llm_ainvoke ?S = (\<lambda>msgs. Inr ''It parses the header.'')"
    by (simp add: stub_services_def)
  show ?thesis
    unfolding chat_unfold [OF r t f] c l classify_stub by (simp add: doc_citations_def)
qed

text \<open>
  C3 (amended). \<^verbatim>\<open>RAGPipeline.execute\<close> short-circuits: when the context after the
  query-parse and intent stages holds an intent result with
  \<open>requires_clarification\<close>, \<open>execute\<close> returns that context with the clarification
  response set, and no node of the retrieve, rerank, context-build, prompt-assemble,
  generate and post-process stages has been called.
\<close>

theorem execute_short_circuits_on_clarification:
  assumes "then_stage P INTENT_CLASSIFY
             (then_stage P QUERY_PARSE (Inr (new_context q sid uid), [])) = (Inr ctx, tr)"
    and "ctx_intent ctx = Some ir"
    and "requires_clarification ir"
  shows "execute P q sid uid =
           (Inr (ctx\<lparr> response :=
                    Some ''I need more information to understand your question...'' \<rparr>), tr) \<and>
         set tr \<subseteq> {QUERY_PARSE, INTENT_CLASSIFY} \<and>
         RETRIEVE \<notin> set tr \<and> RERANK \<notin> set tr \<and> CONTEXT_BUILD \<notin> set tr \<and>
         PROMPT_ASSEMBLE \<notin> set tr \<and> GENERATE \<notin> set tr \<and> POST_PROCESS \<notin> set tr"
proof -
  from assms(2,3) have n: "needs_clarification ctx" by (simp add: needs_clarification_def)
  have e: "execute P q sid uid =
           (Inr (ctx\<lparr> response :=
                    Some ''I need more information to understand your question...'' \<rparr>), tr)"
    unfolding execute_def assms(1) using n by simp
  have "set (snd (then_stage P INTENT_CLASSIFY
             (then_stage P QUERY_PARSE (Inr (new_context q sid uid), [])))) \<subseteq>
        set (snd (then_stage P QUERY_PARSE (Inr (new_context q sid uid), []))) \<union> {INTENT_CLASSIFY}"
    by (rule then_stage_trace)
  moreover have "set (snd (then_stage P QUERY_PARSE (Inr (new_context q sid uid), []))) \<subseteq>
        set (snd (Inr (new_context q sid uid) :: error + PipelineContext, [] :: PipelineStage list)) \<union> {QUERY_PARSE}"
    by (rule then_stage_trace)
  ultimately have s: "set tr \<subseteq> {QUERY_PARSE, INTENT_CLASSIFY}"
    unfolding assms(1) by auto
  then have "RETRIEVE \<notin> set tr \<and> RERANK \<notin> set tr \<and> CONTEXT_BUILD \<notin> set tr \<and>
         PROMPT_ASSEMBLE \<notin> set tr \<and> GENERATE \<notin> set tr \<and> POST_PROCESS \<notin> set tr"
    by auto
  with e s show ?thesis by simp
qed

theorem execute_short_circuits_on_clarification_witness:
  "execute
     (stub_pipeline
        \<lparr> intent = GENERAL_QA, confidence = 2 / 5, entities = [],
          suggested_prompt_template = ''general_qa_v1'', requires_clarification = True \<rparr> [])
     ''fix it'' ''s1'' None =
   (Inr ((new_context ''fix it'' ''s1'' None)
           \<lparr> ctx_intent :=
               Some \<lparr> intent = GENERAL_QA, confidence = 2 / 5, entities = [],
                      suggested_prompt_template = ''general_qa_v1'',
                      requires_clarification = True \<rparr>,
             response := Some ''I need more information to understand your question...'' \<rparr>),
    [INTENT_CLASSIFY])"
proof -
  let ?ir = "\<lparr> intent = GENERAL_QA, confidence = 2 / 5, entities = [],
          suggested_prompt_template = ''general_qa_v1'', requires_clarification = True \<rparr>"
  let ?ctx = "(new_context ''fix it'' ''s1'' None) \<lparr> ctx_intent := Some ?ir \<rparr>"
  have a: "then_stage (stub_pipeline ?ir []) INTENT_CLASSIFY
             (then_stage (stub_pipeline ?ir []) QUERY_PARSE
                (Inr (new_context ''fix it'' ''s1'' None), [])) = (Inr ?ctx, [INTENT_CLASSIFY])"
    by (simp add: then_stage_def execute_stage_def stub_pipeline_def)
  have b: "ctx_intent ?ctx = Some ?ir" by simp
  have c: "requires_clarification ?ir" by simp
  from execute_short_circuits_on_clarification [OF a b c] show ?thesis by simp
qed

lemma default_v1_registered: "default_v1 \<in> set (map snd prompt_templates)"
  by (simp add: prompt_templates_def)

lemma chat_calls:
  assumes "chat_retrieval S (fst (classify (validation S) (intent_chain S) q)) q = (docs, caught, rcalls)"
    and "select_prompt (suggested_prompt_template (fst (classify (validation S) (intent_chain S) q))) = Inr t"
    and "format_messages [(''context'', format_docs (py_str S) docs), (''question'', q)] t = Inr msgs"
  shows "snd (chat S q sid) = Classify q # rcalls @ [Generate msgs]"
    and "fst (chat S q sid) = Inr res \<Longrightarrow>
           res_citations res = doc_citations docs \<and>
           res_metadata res =
             [(''template_used'',
               JStr (suggested_prompt_template (fst (classify (validation S) (intent_chain S) q))))]"
  unfolding chat_unfold [OF assms] by (cases "llm_ainvoke S msgs"; auto)+

lemma chat_stream_trace:
  assumes "chat_retrieval S (fst (classify (validation S) (intent_chain S) q)) q = (docs, caught, rcalls)"
    and "select_prompt (suggested_prompt_template (fst (classify (validation S) (intent_chain S) q))) = Inr t"
    and "format_messages [(''context'', format_docs (py_str S) docs), (''question'', q)] t = Inr msgs"
  shows "trace (chat_stream S q sid) = Classify q # rcalls @ [Generate msgs]"
proof -
  obtain chunks failure where l: "llm_astream S msgs = (chunks, failure)"
    by (cases "llm_astream S msgs")
  show ?thesis unfolding chat_stream_unfold [OF assms l] by simp
qed

lemma classify_stub_bug_fix:
  "classify (validation (stub_services (Inr (classifier_reply ''bug_fix'' (9 / 10) ''bug_fix_v1'' False)) ro))
     (intent_chain (stub_services (Inr (classifier_reply ''bug_fix'' (9 / 10) ''bug_fix_v1'' False)) ro)) q =
   (\<lparr> intent = BUG_FIX, confidence = 9 / 10, entities = [],
      suggested_prompt_template = ''bug_fix_v1'', requires_clarification = False \<rparr>, [])"
  by (simp add: stub_services_def classifier_reply_def classify_def classify_try_def dict_get_def
      hashable_def value2member_def resolve_template_def truthy_def allowed_template_ids_def
      typed_validators_def)

lemma chat_stream_done:
  assumes "chat_retrieval S (fst (classify (validation S) (intent_chain S) q)) q = (docs, caught, rcalls)"
    and "(''done'', data) \<in> set (events (chat_stream S q sid))"
  shows "data = JObj [(''session_id'', JStr sid),
                      (''citations'', JArr (map citation_json (doc_citations docs)))]"
proof -
  from select_prompt_member obtain t where
    t: "t \<in> set (map snd prompt_templates)"
      "select_prompt (suggested_prompt_template (fst (classify (validation S) (intent_chain S) q))) = Inr t"
    by blast
  from format_messages_templates [OF t(1)] obtain sys where
    f: "format_messages [(''context'', format_docs (py_str S) docs), (''question'', q)] t =
       Inr [(''system'', sys), (''user'', q)]"
    by blast
  obtain chunks failure where l: "llm_astream S [(''system'', sys), (''user'', q)] = (chunks, failure)"
    by (cases "llm_astream S [(''system'', sys), (''user'', q)]")
  from assms(2) show ?thesis
    unfolding chat_stream_unfold [OF assms(1) t(2) f l]
    by (auto simp: format_sse_def split: option.splits if_splits)
qed

lemma chat_citations:
  assumes "chat_retrieval S (fst (classify (validation S) (intent_chain S) q)) q = (docs, caught, rcalls)"
    and "fst (chat S q sid) = Inr res"
  shows "res_citations res = doc_citations docs"
proof -
  from select_prompt_member obtain t where
    t: "t \<in> set (map snd prompt_templates)"
      "select_prompt (suggested_prompt_template (fst (classify (validation S) (intent_chain S) q))) = Inr t"
    by blast
  from format_messages_templates [OF t(1)] obtain sys where
    f: "format_messages [(''context'', format_docs (py_str S) docs), (''question'', q)] t =
       Inr [(''system'', sys), (''user'', q)]"
    by blast
  from chat_calls(2) [OF assms(1) t(2) f assms(2)] show ?thesis by simp
qed

lemma classify_stub_casual:
  "classify (validation (stub_services (Inr (classifier_reply ''casual_chat'' (19 / 20) ''casual_chat_v1'' False)) ro))
     (intent_chain (stub_services (Inr (classifier_reply ''casual_chat'' (19 / 20) ''casual_chat_v1'' False)) ro)) q =
   (\<lparr> intent = CASUAL_CHAT, confidence = 19 / 20, entities = [],
      suggested_prompt_template = ''casual_chat_v1'', requires_clarification = False \<rparr>, [])"
  by (simp add: stub_services_def classifier_reply_def classify_def classify_try_def dict_get_def
      hashable_def value2member_def resolve_template_def truthy_def allowed_template_ids_def
      typed_validators_def)

text \<open>
  C8. When the classified intent is \<open>casual_chat\<close>, neither \<open>chat\<close> nor \<open>chat_stream\<close>
  calls the retrieval service, the only path to a document source: no \<open>Retrieve\<close>
  call is recorded and both give the same result whatever the retrieval service would
  have answered. The citations of the final response, and of the \<open>done\<close> event, are
  empty.
\<close>

theorem casual_chat_skips_retrieval:
  assumes "intent (fst (classify (validation S) (intent_chain S) q)) = CASUAL_CHAT"
  shows "(\<forall>x. Retrieve x \<notin> set (snd (chat S q sid))) \<and>
         (\<forall>res. fst (chat S q sid) = Inr res \<longrightarrow> res_citations res = []) \<and>
         (\<forall>x. Retrieve x \<notin> set (trace (chat_stream S q sid))) \<and>
         (\<forall>data. (''done'', data) \<in> set (events (chat_stream S q sid)) \<longrightarrow>
                data = JObj [(''session_id'', JStr sid), (''citations'', JArr [])]) \<and>
         chat (S\<lparr>retrieval := other\<rparr>) q sid = chat S q sid \<and>
         chat_stream (S\<lparr>retrieval := other\<rparr>) q sid = chat_stream S q sid"
proof -
  let ?S' = "S\<lparr>retrieval := other\<rparr>"
  have r: "chat_retrieval S (fst (classify (validation S) (intent_chain S) q)) q = ([], None, [])"
    using assms by (simp add: chat_retrieval_def)
  have r': "chat_retrieval ?S' (fst (classify (validation ?S') (intent_chain ?S') q)) q = ([], None, [])"
    using assms by (simp add: chat_retrieval_def)
  from select_prompt_member obtain t where
    t: "t \<in> set (map snd prompt_templates)"
      "select_prompt (suggested_prompt_template (fst (classify (validation S) (intent_chain S) q))) = Inr t"
    by blast
  then have t': "select_prompt (suggested_prompt_template
                   (fst (classify (validation ?S') (intent_chain ?S') q))) = Inr t"
    by simp
  from format_messages_templates [OF t(1)] obtain sys where
    f: "format_messages [(''context'', format_docs (py_str S) []), (''question'', q)] t =
       Inr [(''system'', sys), (''user'', q)]"
    by blast
  then have f': "format_messages [(''context'', format_docs (py_str ?S') []), (''question'', q)] t =
       Inr [(''system'', sys), (''user'', q)]"
    by simp
  obtain chunks failure where l: "llm_astream S [(''system'', sys), (''user'', q)] = (chunks, failure)"
    by (cases "llm_astream S [(''system'', sys), (''user'', q)]")
  then have l': "llm_astream ?S' [(''system'', sys), (''user'', q)] = (chunks, failure)"
    by simp
  have 1: "\<forall>x. Retrieve x \<notin> set (snd (chat S q sid))"
    unfolding chat_calls(1) [OF r t(2) f] by simp
  have 2: "\<forall>res. fst (chat S q sid) = Inr res \<longrightarrow> res_citations res = []"
    using chat_citations [OF r] by (simp add: doc_citations_def)
  have 3: "\<forall>x. Retrieve x \<notin> set (trace (chat_stream S q sid))"
    unfolding chat_stream_trace [OF r t(2) f] by simp
  have 4: "\<forall>data. (''done'', data) \<in> set (events (chat_stream S q sid)) \<longrightarrow>
                data = JObj [(''session_id'', JStr sid), (''citations'', JArr [])]"
    using chat_stream_done [OF r] by (simp add: doc_citations_def)
  have 5: "chat ?S' q sid = chat S q sid"
    unfolding chat_unfold [OF r t(2) f] chat_unfold [OF r' t' f']
    by (cases "llm_ainvoke S [(''system'', sys), (''user'', q)]") simp_all
  have 6: "chat_stream ?S' q sid = chat_stream S q sid"
    unfolding chat_stream_unfold [OF r t(2) f l] chat_stream_unfold [OF r' t' f' l'] by simp
  from 1 2 3 4 5 6 show ?thesis by (intro conjI)
qed

theorem casual_chat_skips_retrieval_witness:
  "intent (fst (classify typed_validators
             (\<lambda>q. Inr (classifier_reply ''casual_chat'' (19 / 20) ''casual_chat_v1'' False)) ''hi'')) =
     CASUAL_CHAT \<and>
   Retrieve ''hi'' \<notin> set (snd (chat
      (stub_services (Inr (classifier_reply ''casual_chat'' (19 / 20) ''casual_chat_v1'' False))
         (Inr [\<lparr> page_content = ''alpha'', metadata = [(''source'', JStr ''a.py'')] \<rparr>]))
      ''hi'' ''s1'')) \<and>
   map_sum id res_citations (fst (chat
      (stub_services (Inr (classifier_reply ''casual_chat'' (19 / 20) ''casual_chat_v1'' False))
         (Inr [\<lparr> page_content = ''alpha'', metadata = [(''source'', JStr ''a.py'')] \<rparr>]))
      ''hi'' ''s1'')) = Inr []"
proof -
  let ?S = "stub_services (Inr (classifier_reply ''casual_chat'' (19 / 20) ''casual_chat_v1'' False))
         (Inr [\<lparr> page_content = ''alpha'', metadata = [(''source'', JStr ''a.py'')] \<rparr>])"
  have v: "validation ?S = typed_validators"
    and i: "intent_chain ?S = (\<lambda>q. Inr (classifier_reply ''casual_chat'' (19 / 20) ''casual_chat_v1'' False))"
    and l: "llm_ainvoke ?S = (\<lambda>msgs. Inr ''It parses the header.'')"
    by (simp_all add: stub_services_def)
  have a: "intent (fst (classify (validation ?S) (intent_chain ?S) ''hi'')) = CASUAL_CHAT"
    unfolding classify_stub_casual by simp
  note th = casual_chat_skips_retrieval [OF a, of "''s1''"]
  have 1: "Retrieve ''hi'' \<notin> set (snd (chat ?S ''hi'' ''s1''))"
    by (rule th [THEN conjunct1, THEN spec])
  have 2: "\<forall>res. fst (chat ?S ''hi'' ''s1'') = Inr res \<longrightarrow> res_citations res = []"
    by (rule th [THEN conjunct2, THEN conjunct1])
  from select_prompt_member obtain t where
    t: "t \<in> set (map snd prompt_templates)"
      "select_prompt (suggested_prompt_template (fst (classify (validation ?S) (intent_chain ?S) ''hi''))) = Inr t"
    by blast
  have r: "chat_retrieval ?S (fst (classify (validation ?S) (intent_chain ?S) ''hi'')) ''hi'' = ([], None, [])"
    using a by (simp add: chat_retrieval_def)
  from format_messages_templates [OF t(1)] obtain sys where
    f: "format_messages [(''context'', format_docs (py_str ?S) []), (''question'', ''hi'')] t =
       Inr [(''system'', sys), (''user'', ''hi'')]"
    by blast
  have "\<exists>res. fst (chat ?S ''hi'' ''s1'') = Inr res"
    unfolding chat_unfold [OF r t(2) f] l by simp
  with 2 have 3: "map_sum id res_citations (fst (chat ?S ''hi'' ''s1'')) = Inr []"
    by auto
  from a 1 3 show ?thesis unfolding v i by simp
qed

text \<open>
  C10. The allow-list of the intent service has eight template ids; the mapping of the
  chat service defines five of them. For a request whose suggested template id is
  none of the five (\<open>code_review_v1\<close>, \<open>bug_fix_v1\<close> and \<open>refactor_v1\<close> among the allowed
  ones), the selected template is \<open>default_v1\<close>: the generation chain of \<open>chat\<close> and of
  \<open>chat_stream\<close> is called with the messages of \<open>default_v1\<close>, while the metadata of
  the response still names the requested id.
\<close>

theorem generation_falls_back_to_default_template:
  assumes "tid = suggested_prompt_template (fst (classify (validation S) (intent_chain S) q))"
    and "tid \<notin> set (map fst prompt_templates)"
  shows "length allowed_template_ids = 8 \<and>
         map fst prompt_templates =
           [''default_v1'', ''code_search_v1'', ''code_explain_v1'', ''general_qa_v1'',
            ''casual_chat_v1''] \<and>
         filter (\<lambda>t. t \<notin> set (map fst prompt_templates)) allowed_template_ids =
           [''code_review_v1'', ''bug_fix_v1'', ''refactor_v1''] \<and>
         select_prompt tid = Inr default_v1 \<and>
         (\<exists>docs caught rcalls msgs.
            chat_retrieval S (fst (classify (validation S) (intent_chain S) q)) q =
              (docs, caught, rcalls) \<and>
            format_messages [(''context'', format_docs (py_str S) docs), (''question'', q)]
              default_v1 = Inr msgs \<and>
            snd (chat S q sid) = Classify q # rcalls @ [Generate msgs] \<and>
            trace (chat_stream S q sid) = Classify q # rcalls @ [Generate msgs] \<and>
            (\<forall>res. fst (chat S q sid) = Inr res \<longrightarrow>
                   res_metadata res = [(''template_used'', JStr tid)]))"
proof -
  have a: "length allowed_template_ids = 8" by (simp add: allowed_template_ids_def)
  have b: "map fst prompt_templates =
           [''default_v1'', ''code_search_v1'', ''code_explain_v1'', ''general_qa_v1'',
            ''casual_chat_v1'']"
    by (simp add: prompt_templates_def)
  have c: "filter (\<lambda>t. t \<notin> set (map fst prompt_templates)) allowed_template_ids =
           [''code_review_v1'', ''bug_fix_v1'', ''refactor_v1'']"
    unfolding b by (simp add: allowed_template_ids_def)
  have d: "select_prompt tid = Inr default_v1"
    using assms(2) by (rule select_prompt_absent)
  obtain docs caught rcalls where
    r: "chat_retrieval S (fst (classify (validation S) (intent_chain S) q)) q = (docs, caught, rcalls)"
    by (cases "chat_retrieval S (fst (classify (validation S) (intent_chain S) q)) q") blast
  from format_messages_templates [OF default_v1_registered] obtain sys where
    f: "format_messages [(''context'', format_docs (py_str S) docs), (''question'', q)] default_v1 =
          Inr [(''system'', sys), (''user'', q)]"
    by blast
  from d have t: "select_prompt (suggested_prompt_template
        (fst (classify (validation S) (intent_chain S) q))) = Inr default_v1"
    unfolding assms(1) .
  have "\<forall>res. fst (chat S q sid) = Inr res \<longrightarrow> res_metadata res = [(''template_used'', JStr tid)]"
    using chat_calls(2) [OF r t f] unfolding assms(1) by blast
  with r f chat_calls(1) [OF r t f] chat_stream_trace [OF r t f]
  have "\<exists>docs caught rcalls msgs.
            chat_retrieval S (fst (classify (validation S) (intent_chain S) q)) q =
              (docs, caught, rcalls) \<and>
            format_messages [(''context'', format_docs (py_str S) docs), (''question'', q)]
              default_v1 = Inr msgs \<and>
            snd (chat S q sid) = Classify q # rcalls @ [Generate msgs] \<and>
            trace (chat_stream S q sid) = Classify q # rcalls @ [Generate msgs] \<and>
            (\<forall>res. fst (chat S q sid) = Inr res \<longrightarrow>
                   res_metadata res = [(''template_used'', JStr tid)])"
    by blast
  with a b c d show ?thesis by (intro conjI)
qed

theorem generation_falls_back_to_default_template_witness:
  "suggested_prompt_template
     (fst (classify typed_validators
             (\<lambda>q. Inr (classifier_reply ''bug_fix'' (9 / 10) ''bug_fix_v1'' False)) ''it crashes'')) =
     ''bug_fix_v1'' \<and>
   ''bug_fix_v1'' \<notin> set (map fst prompt_templates) \<and>
   select_prompt ''bug_fix_v1'' = Inr default_v1"
proof -
  let ?S = "stub_services (Inr (classifier_reply ''bug_fix'' (9 / 10) ''bug_fix_v1'' False)) (Inr [])"
  have v: "validation ?S = typed_validators"
    and i: "intent_chain ?S = (\<lambda>q. Inr (classifier_reply ''bug_fix'' (9 / 10) ''bug_fix_v1'' False))"
    by (simp_all add: stub_services_def)
  have a: "''bug_fix_v1'' =
      suggested_prompt_template (fst (classify (validation ?S) (intent_chain ?S) ''it crashes''))"
    unfolding classify_stub_bug_fix by simp
  have b: "''bug_fix_v1'' \<notin> set (map fst prompt_templates)"
    by (simp add: prompt_templates_def)
  from generation_falls_back_to_default_template [OF a b, of "''s1''"]
  have "select_prompt ''bug_fix_v1'' = Inr default_v1" by (elim conjE)
  with a b show ?thesis unfolding v i by simp
qed

lemma execute_stream_cases:
  obtains
    (intent_failed) e tr where
      "execute_stage P INTENT_CLASSIFY (new_context q sid uid) = (Inl e, tr)"
      "events (execute_stream P q sid uid) =
         [format_sse ''status'' [(''stage'', JStr ''intent_classify'')]]"
      "raised (execute_stream P q sid uid) = Some e"
  | (clarification) ctx tr where
      "execute_stage P INTENT_CLASSIFY (new_context q sid uid) = (Inr ctx, tr)"
      "needs_clarification ctx"
      "events (execute_stream P q sid uid) =
         [format_sse ''status'' [(''stage'', JStr ''intent_classify'')],
          format_sse ''clarification''
            [(''message'', JStr ''Clarification needed''), (''suggestions'', JArr [])]]"
      "raised (execute_stream P q sid uid) = None"
  | (retrieve_failed) ctx tr e tr' where
      "execute_stage P INTENT_CLASSIFY (new_context q sid uid) = (Inr ctx, tr)"
      "\<not> needs_clarification ctx"
      "then_stage P RETRIEVE (Inr ctx, tr) = (Inl e, tr')"
      "events (execute_stream P q sid uid) =
         [format_sse ''status'' [(''stage'', JStr ''intent_classify'')],
          format_sse ''status'' [(''stage'', JStr ''retrieving'')]]"
      "raised (execute_stream P q sid uid) = Some e"
  | (completed) ctx tr ctx' tr' where
      "execute_stage P INTENT_CLASSIFY (new_context q sid uid) = (Inr ctx, tr)"
      "\<not> needs_clarification ctx"
      "then_stage P RETRIEVE (Inr ctx, tr) = (Inr ctx', tr')"
      "events (execute_stream P q sid uid) =
         [format_sse ''status'' [(''stage'', JStr ''intent_classify'')],
          format_sse ''status'' [(''stage'', JStr ''retrieving'')],
          format_sse ''retrieval''
            [(''found'', JNum (real (length (case retrieval_results ctx' of None \<Rightarrow> [] | Some rs \<Rightarrow> rs)))),
             (''sources'',
              JArr (map (\<lambda>r. dict_get (result_metadata r) ''source'' JNull)
                      (case retrieval_results ctx' of None \<Rightarrow> [] | Some rs \<Rightarrow> rs)))]] @
         format_sse ''status'' [(''stage'', JStr ''generating'')] #
         map (\<lambda>token. format_sse ''token'' [(''content'', JStr token)]) (execute_stream_stage P ctx') @
         [format_sse ''done''
            [(''session_id'', JStr (session_id ctx')),
             (''citations'', JArr (map citation_json (extract_citations ctx')))]]"
      "raised (execute_stream P q sid uid) = None"
proof -
  obtain r1 tr where s1: "execute_stage P INTENT_CLASSIFY (new_context q sid uid) = (r1, tr)"
    by (cases "execute_stage P INTENT_CLASSIFY (new_context q sid uid)")
  show thesis
  proof (cases r1)
    case (Inl e)
    with s1 show thesis
      by (intro intent_failed [of e tr]) (simp_all add: execute_stream_def Let_def)
  next
    case (Inr ctx)
    show thesis
    proof (cases "needs_clarification ctx")
      case True
      with s1 Inr show thesis
        by (intro clarification [of ctx tr]) (simp_all add: execute_stream_def Let_def)
    next
      case False
      obtain r2 tr' where s2: "then_stage P RETRIEVE (Inr ctx, tr) = (r2, tr')"
        by (cases "then_stage P RETRIEVE (Inr ctx, tr)")
      show thesis
      proof (cases r2)
        case (Inl e)
        with s1 Inr False s2 show thesis
          by (intro retrieve_failed [of ctx tr e tr']) (simp_all add: execute_stream_def Let_def)
      next
        case r2: (Inr ctx')
        with s1 Inr False s2 show thesis
          by (intro completed [of ctx tr ctx' tr']) (simp_all add: execute_stream_def Let_def)
      qed
    qed
  qed
qed

lemma execute_stream_done:
  assumes "(''done'', data) \<in> set (events (execute_stream P q sid uid))"
  shows "\<exists>ctx tr.
           then_stage P RETRIEVE (execute_stage P INTENT_CLASSIFY (new_context q sid uid)) = (Inr ctx, tr) \<and>
           data = JObj [(''session_id'', JStr (session_id ctx)),
                        (''citations'', JArr (map citation_json (extract_citations ctx)))]"
proof (cases rule: execute_stream_cases [of P q sid uid])
  case (intent_failed e tr)
  with assms show ?thesis by (simp add: format_sse_def)
next
  case (clarification ctx tr)
  with assms show ?thesis by (simp add: format_sse_def)
next
  case (retrieve_failed ctx tr e tr')
  with assms show ?thesis by (simp add: format_sse_def)
next
  case (completed ctx tr ctx' tr')
  from assms have "data = JObj [(''session_id'', JStr (session_id ctx')),
                        (''citations'', JArr (map citation_json (extract_citations ctx')))]"
    unfolding completed(4) by (auto simp: format_sse_def)
  with completed(1,3) show ?thesis by simp
qed

lemma doc_citations_nth:
  "i < length docs \<Longrightarrow>
     doc_citations docs ! i =
       \<lparr> c_source = dict_get (metadata (docs ! i)) ''source'' JNull,
         c_content = take 100 (page_content (docs ! i)) @ ''...'',
         c_relevance = dict_get (metadata (docs ! i)) ''score'' (JNum 0) \<rparr>"
  by (simp add: doc_citations_def)

lemma extract_citations_nth:
  "retrieval_results ctx = Some rs \<Longrightarrow> i < length rs \<Longrightarrow>
     extract_citations ctx ! i =
       \<lparr> c_source = dict_get (result_metadata (rs ! i)) ''source'' JNull,
         c_content = take 100 (content (rs ! i)) @ ''...'',
         c_relevance = JNum (score (rs ! i)) \<rparr>"
  by (simp add: extract_citations_def)

text \<open>
  C9 (as stated, refuted). The claim: the content of a citation is a preview of at
  most 100 characters. Every citation's content is the first 100 characters of the
  document followed by three dots: for a document of 100 characters the content of
  its citation in the response of \<open>chat\<close> has 103 characters.
\<close>

theorem citation_preview_counterexample:
  "map_sum id res_citations
     (fst (chat
        (stub_services (Inr (classifier_reply ''bug_fix'' (9 / 10) ''bug_fix_v1'' False))
           (Inr [\<lparr> page_content = replicate 100 CHR ''a'',
                    metadata = [(''source'', JStr ''long.py''), (''score'', JNum (9 / 10))] \<rparr>]))
        ''it crashes'' ''s1'')) =
     Inr [\<lparr> c_source = JStr ''long.py'', c_content = replicate 100 CHR ''a'' @ ''...'',
            c_relevance = JNum (9 / 10) \<rparr>] \<and>
   length (replicate 100 CHR ''a'' @ ''...'') = 103"
proof -
  let ?doc = "\<lparr> page_content = replicate 100 CHR ''a'',
                    metadata = [(''source'', JStr ''long.py''), (''score'', JNum (9 / 10))] \<rparr>"
  let ?S = "stub_services (Inr (classifier_reply ''bug_fix'' (9 / 10) ''bug_fix_v1'' False)) (Inr [?doc])"
  have l: "llm_ainvoke ?S = (\<lambda>msgs. Inr ''It parses the header.'')"
    by (simp add: stub_services_def)
  have r: "chat_retrieval ?S (fst (classify (validation ?S) (intent_chain ?S) ''it crashes'')) ''it crashes'' =
             ([?doc], None, [Retrieve ''it crashes''])"
    unfolding classify_stub_bug_fix by (simp add: chat_retrieval_def stub_services_def)
  from select_prompt_member obtain t where
    t: "t \<in> set (map snd prompt_templates)"
      "select_prompt (suggested_prompt_template
         (fst (classify (validation ?S) (intent_chain ?S) ''it crashes''))) = Inr t"
    by blast
  from format_messages_templates [OF t(1)] obtain sys where
    f: "format_messages [(''context'', format_docs (py_str ?S) [?doc]), (''question'', ''it crashes'')] t =
       Inr [(''system'', sys), (''user'', ''it crashes'')]"
    by blast
  have "map_sum id res_citations (fst (chat ?S ''it crashes'' ''s1'')) = Inr (doc_citations [?doc])"
    unfolding chat_unfold [OF r t(2) f] l by simp
  then show ?thesis by (simp add: doc_citations_def dict_get_def)
qed

text \<open>
  C9 (amended). The citations of a response of \<open>chat\<close>, of the \<open>done\<close> event of
  \<open>chat_stream\<close> and of the \<open>done\<close> event of \<open>execute_stream\<close> are computed from the
  retrieved documents alone (for the two services: what the retrieval returned, or
  nothing when it was skipped or failed; for the pipeline: the retrieval results of
  the context after the retrieve stage). There is one citation per document, in the
  order of the documents: its source (the metadata's \<open>source\<close>, null when absent), as
  content the first 100 characters of the document followed by \<open>...\<close> (so
  \<open>min 100 n + 3\<close> characters for a document of \<open>n\<close>), and its relevance (the
  metadata's \<open>score\<close>, 0 when absent; the result's score in the pipeline). No
  document gives no citation.
\<close>

theorem citations_mirror_retrieved_documents:
  assumes "chat_retrieval S (fst (classify (validation S) (intent_chain S) q)) q = (docs, caught, rcalls)"
  shows "(\<forall>res. fst (chat S q sid) = Inr res \<longrightarrow> res_citations res = doc_citations docs) \<and>
         (\<forall>data. (''done'', data) \<in> set (events (chat_stream S q sid)) \<longrightarrow>
                data = JObj [(''session_id'', JStr sid),
                             (''citations'', JArr (map citation_json (doc_citations docs)))]) \<and>
         length (doc_citations docs) = length docs \<and>
         (\<forall>i<length docs.
            doc_citations docs ! i =
              \<lparr> c_source = dict_get (metadata (docs ! i)) ''source'' JNull,
                c_content = take 100 (page_content (docs ! i)) @ ''...'',
                c_relevance = dict_get (metadata (docs ! i)) ''score'' (JNum 0) \<rparr> \<and>
            length (c_content (doc_citations docs ! i)) =
              min 100 (length (page_content (docs ! i))) + 3) \<and>
         (docs = [] \<longrightarrow> doc_citations docs = []) \<and>
         (\<forall>data. (''done'', data) \<in> set (events (execute_stream P q sid uid)) \<longrightarrow>
            (\<exists>ctx tr.
               then_stage P RETRIEVE (execute_stage P INTENT_CLASSIFY (new_context q sid uid)) =
                 (Inr ctx, tr) \<and>
               data = JObj [(''session_id'', JStr (session_id ctx)),
                            (''citations'', JArr (map citation_json (extract_citations ctx)))])) \<and>
         length (extract_citations ctx) =
           length (case retrieval_results ctx of None \<Rightarrow> [] | Some rs \<Rightarrow> rs) \<and>
         (\<forall>rs i. retrieval_results ctx = Some rs \<and> i < length rs \<longrightarrow>
            extract_citations ctx ! i =
              \<lparr> c_source = dict_get (result_metadata (rs ! i)) ''source'' JNull,
                c_content = take 100 (content (rs ! i)) @ ''...'',
                c_relevance = JNum (score (rs ! i)) \<rparr>) \<and>
         (retrieval_results ctx = None \<or> retrieval_results ctx = Some [] \<longrightarrow>
            extract_citations ctx = [])"
proof (intro conjI allI impI)
  fix res assume "fst (chat S q sid) = Inr res"
  with assms show "res_citations res = doc_citations docs" by (rule chat_citations)
next
  fix data assume "(''done'', data) \<in> set (events (chat_stream S q sid))"
  with assms show "data = JObj [(''session_id'', JStr sid),
                             (''citations'', JArr (map citation_json (doc_citations docs)))]"
    by (rule chat_stream_done)
next
  show "length (doc_citations docs) = length docs" by (simp add: doc_citations_def)
next
  fix i assume "i < length docs"
  then show "doc_citations docs ! i =
              \<lparr> c_source = dict_get (metadata (docs ! i)) ''source'' JNull,
                c_content = take 100 (page_content (docs ! i)) @ ''...'',
                c_relevance = dict_get (metadata (docs ! i)) ''score'' (JNum 0) \<rparr>"
    by (rule doc_citations_nth)
next
  fix i assume "i < length docs"
  then show "length (c_content (doc_citations docs ! i)) =
              min 100 (length (page_content (docs ! i))) + 3"
    by (simp add: doc_citations_nth min.commute)
next
  assume "docs = []"
  then show "doc_citations docs = []" by (simp add: doc_citations_def)
next
  fix data assume "(''done'', data) \<in> set (events (execute_stream P q sid uid))"
  then show "\<exists>ctx tr.
               then_stage P RETRIEVE (execute_stage P INTENT_CLASSIFY (new_context q sid uid)) =
                 (Inr ctx, tr) \<and>
               data = JObj [(''session_id'', JStr (session_id ctx)),
                            (''citations'', JArr (map citation_json (extract_citations ctx)))]"
    by (rule execute_stream_done)
next
  show "length (extract_citations ctx) =
           length (case retrieval_results ctx of None \<Rightarrow> [] | Some rs \<Rightarrow> rs)"
    by (simp add: extract_citations_def split: option.splits)
next
  fix rs i assume "retrieval_results ctx = Some rs \<and> i < length rs"
  then show "extract_citations ctx ! i =
              \<lparr> c_source = dict_get (result_metadata (rs ! i)) ''source'' JNull,
                c_content = take 100 (content (rs ! i)) @ ''...'',
                c_relevance = JNum (score (rs ! i)) \<rparr>"
    by (simp add: extract_citations_nth)
next
  assume "retrieval_results ctx = None \<or> retrieval_results ctx = Some []"
  then show "extract_citations ctx = []"
    by (auto simp: extract_citations_def)
qed

theorem citations_mirror_retrieved_documents_witness:
  "map_sum id res_citations
     (fst (chat
        (stub_services (Inr (classifier_reply ''bug_fix'' (9 / 10) ''bug_fix_v1'' False))
           (Inr [\<lparr> page_content = ''alpha'',
                    metadata = [(''source'', JStr ''a.py''), (''score'', JNum (9 / 10))] \<rparr>,
                 \<lparr> page_content = ''beta'', metadata = [] \<rparr>]))
        ''it crashes'' ''s1'')) =
     Inr [\<lparr> c_source = JStr ''a.py'', c_content = ''alpha...'', c_relevance = JNum (9 / 10) \<rparr>,
          \<lparr> c_source = JNull, c_content = ''beta...'', c_relevance = JNum 0 \<rparr>]"
proof -
  let ?docs = "[\<lparr> page_content = ''alpha'',
                    metadata = [(''source'', JStr ''a.py''), (''score'', JNum (9 / 10))] \<rparr>,
                 \<lparr> page_content = ''beta'', metadata = [] \<rparr>]"
  let ?S = "stub_services (Inr (classifier_reply ''bug_fix'' (9 / 10) ''bug_fix_v1'' False)) (Inr ?docs)"
  have l: "llm_ainvoke ?S = (\<lambda>msgs. Inr ''It parses the header.'')"
    by (simp add: stub_services_def)
  have r: "chat_retrieval ?S (fst (classify (validation ?S) (intent_chain ?S) ''it crashes'')) ''it crashes'' =
             (?docs, None, [Retrieve ''it crashes''])"
    unfolding classify_stub_bug_fix by (simp add: chat_retrieval_def stub_services_def)
  from select_prompt_member obtain t where
    t: "t \<in> set (map snd prompt_templates)"
      "select_prompt (suggested_prompt_template
         (fst (classify (validation ?S) (intent_chain ?S) ''it crashes''))) = Inr t"
    by blast
  from format_messages_templates [OF t(1)] obtain sys where
    f: "format_messages [(''context'', format_docs (py_str ?S) ?docs), (''question'', ''it crashes'')] t =
       Inr [(''system'', sys), (''user'', ''it crashes'')]"
    by blast
  have e: "\<exists>res. fst (chat ?S ''it crashes'' ''s1'') = Inr res"
    unfolding chat_unfold [OF r t(2) f] l by simp
  have "\<forall>res. fst (chat ?S ''it crashes'' ''s1'') = Inr res \<longrightarrow> res_citations res = doc_citations ?docs"
    by (rule citations_mirror_retrieved_documents [OF r, THEN conjunct1])
  with e have "map_sum id res_citations (fst (chat ?S ''it crashes'' ''s1'')) = Inr (doc_citations ?docs)"
    by auto
  then show ?thesis by (simp add: doc_citations_def dict_get_def)
qed

lemma tokens_after_marker:
  assumes "evs = before @ g # toks @ tail"
    and "\<forall>e \<in> set before. \<not> is_tok e"
    and "\<not> is_tok g"
    and "i < length evs" and "is_tok (evs ! i)"
  shows "\<exists>j<i. evs ! j = g"
proof -
  have "\<not> i < length before"
  proof
    assume "i < length before"
    then have "evs ! i \<in> set before" unfolding assms(1) by (simp add: nth_append)
    with assms(2,5) show False by blast
  qed
  moreover have "i \<noteq> length before"
  proof
    assume "i = length before"
    then have "evs ! i = g" unfolding assms(1) by simp
    with assms(3,5) show False by simp
  qed
  ultimately have "length before < i" by simp
  moreover have "evs ! length before = g" unfolding assms(1) by simp
  ultimately show ?thesis by blast
qed

lemma done_is_last:
  assumes "evs = before @ g # toks @ tail"
    and "\<forall>e \<in> set before. \<not> is_done e"
    and "\<not> is_done g"
    and "\<forall>e \<in> set toks. \<not> is_done e"
    and "length tail \<le> 1"
    and "i < length evs" and "is_done (evs ! i)"
  shows "Suc i = length evs"
proof (rule ccontr)
  assume n: "Suc i \<noteq> length evs"
  have len: "length evs = length before + 1 + length toks + length tail"
    unfolding assms(1) by simp
  from n assms(5,6) len have i: "i < length before + 1 + length toks" by simp
  have "evs ! i \<in> set before \<union> {g} \<union> set toks"
  proof (cases "i < length before")
    case True
    then show ?thesis unfolding assms(1) by (simp add: nth_append)
  next
    case False
    show ?thesis
    proof (cases "i = length before")
      case True
      then show ?thesis unfolding assms(1) by simp
    next
      case False
      define k where "k = i - Suc (length before)"
      from False \<open>\<not> i < length before\<close> i have k: "i = length before + Suc k" "k < length toks"
        unfolding k_def by arith+
      have "evs ! i = toks ! k" unfolding assms(1) k(1) using k(2) by (simp add: nth_append)
      with k(2) show ?thesis by simp
    qed
  qed
  with assms(2,3,4,7) show False by blast
qed

lemma event_orderI:
  assumes "evs = before @ format_sse ''status'' [(''stage'', JStr ''generating'')] # toks @ tail"
    and "before \<noteq> []" and "fst (hd before) = ''status''"
    and "\<forall>e \<in> set before. fst e \<noteq> ''token'' \<and> fst e \<noteq> ''done''"
    and "\<forall>e \<in> set toks. fst e \<noteq> ''done''"
    and "length tail \<le> 1"
  shows "event_order evs"
proof -
  let ?g = "format_sse ''status'' [(''stage'', JStr ''generating'')]"
  have g: "fst ?g \<noteq> ''token''" "fst ?g \<noteq> ''done''" by (simp_all add: format_sse_def)
  have 1: "evs \<noteq> []" "fst (hd evs) = ''status''"
    using assms(2,3) unfolding assms(1) by simp_all
  have 2: "\<forall>i<length evs. fst (evs ! i) = ''token'' \<longrightarrow> (\<exists>j<i. evs ! j = ?g)"
  proof (intro allI impI)
    fix i assume i: "i < length evs" "fst (evs ! i) = ''token''"
    from assms(4) have b: "\<forall>e \<in> set before. \<not> fst e = ''token''" by simp
    show "\<exists>j<i. evs ! j = ?g"
      by (rule tokens_after_marker [where is_tok = "\<lambda>e. fst e = ''token''", OF assms(1) b g(1) i])
  qed
  have 3: "\<forall>i<length evs. fst (evs ! i) = ''done'' \<longrightarrow> Suc i = length evs"
  proof (intro allI impI)
    fix i assume i: "i < length evs" "fst (evs ! i) = ''done''"
    from assms(4) have b: "\<forall>e \<in> set before. \<not> fst e = ''done''" by simp
    from assms(5) have c: "\<forall>e \<in> set toks. \<not> fst e = ''done''" by simp
    show "Suc i = length evs"
      by (rule done_is_last [where is_done = "\<lambda>e. fst e = ''done''", OF assms(1) b g(2) c assms(6) i])
  qed
  from 1 2 3 show ?thesis unfolding event_order_def by (intro conjI)
qed

lemma event_order_prefix:
  assumes "evs \<noteq> []" and "fst (hd evs) = ''status''"
    and "\<forall>e \<in> set evs. fst e \<noteq> ''token'' \<and> fst e \<noteq> ''done''"
  shows "event_order evs"
proof -
  have "\<forall>i<length evs. fst (evs ! i) \<noteq> ''token'' \<and> fst (evs ! i) \<noteq> ''done''"
    using assms(3) nth_mem by blast
  with assms(1,2) show ?thesis unfolding event_order_def by simp
qed

lemma chat_stream_event_order: "event_order (events (chat_stream S q sid))"
proof -
  from chat_prepared [of S q] obtain docs caught rcalls t sys where
    r: "chat_retrieval S (fst (classify (validation S) (intent_chain S) q)) q = (docs, caught, rcalls)" and
    t: "select_prompt (suggested_prompt_template (fst (classify (validation S) (intent_chain S) q))) = Inr t" and
    f: "format_messages [(''context'', format_docs (py_str S) docs), (''question'', q)] t =
          Inr [(''system'', sys), (''user'', q)]"
    by blast
  obtain chunks failure where l: "llm_astream S [(''system'', sys), (''user'', q)] = (chunks, failure)"
    by (cases "llm_astream S [(''system'', sys), (''user'', q)]")
  let ?before = "[format_sse ''status'' [(''stage'', JStr ''intent_classify'')]] @
          (if requires_clarification (fst (classify (validation S) (intent_chain S) q))
           then [format_sse ''clarification''
                   [(''message'', JStr ''Clarification needed''), (''suggestions'', JArr [])]]
           else []) @
          [format_sse ''status'' [(''stage'', JStr ''retrieving'')]] @
          (case caught of
             None \<Rightarrow> []
           | Some e \<Rightarrow>
               [format_sse ''error'' [(''message'', JStr (''Retrieval failed: '' @ str_error e))]]) @
          [format_sse ''retrieval''
             [(''found'', JNum (real (length docs))),
              (''sources'', JArr (map (\<lambda>d. dict_get (metadata d) ''source'' JNull) docs))]]"
  let ?toks = "map (\<lambda>chunk. format_sse ''token'' [(''content'', JStr chunk)]) chunks"
  let ?tail = "case failure of
            Some e \<Rightarrow> []
          | None \<Rightarrow>
              [format_sse ''done''
                 [(''session_id'', JStr sid),
                  (''citations'', JArr (map citation_json (doc_citations docs)))]]"
  have e: "events (chat_stream S q sid) =
             ?before @ format_sse ''status'' [(''stage'', JStr ''generating'')] # ?toks @ ?tail"
    unfolding chat_stream_unfold [OF r t f l] by simp
  show ?thesis
  proof (rule event_orderI [OF e])
    show "?before \<noteq> []" by simp
    show "fst (hd ?before) = ''status''" by (simp add: format_sse_def)
    show "\<forall>e \<in> set ?before. fst e \<noteq> ''token'' \<and> fst e \<noteq> ''done''"
      by (cases caught) (simp_all add: format_sse_def)
    show "\<forall>e \<in> set ?toks. fst e \<noteq> ''done''" by (simp add: format_sse_def)
    show "length ?tail \<le> 1" by (cases failure) simp_all
  qed
qed

lemma chat_stream_done_last:
  assumes "raised (chat_stream S q sid) = None"
  shows "fst (last (events (chat_stream S q sid))) = ''done''"
proof -
  from chat_prepared [of S q] obtain docs caught rcalls t sys where
    r: "chat_retrieval S (fst (classify (validation S) (intent_chain S) q)) q = (docs, caught, rcalls)" and
    t: "select_prompt (suggested_prompt_template (fst (classify (validation S) (intent_chain S) q))) = Inr t" and
    f: "format_messages [(''context'', format_docs (py_str S) docs), (''question'', q)] t =
          Inr [(''system'', sys), (''user'', q)]"
    by blast
  obtain chunks failure where l: "llm_astream S [(''system'', sys), (''user'', q)] = (chunks, failure)"
    by (cases "llm_astream S [(''system'', sys), (''user'', q)]")
  from assms have "failure = None" unfolding chat_stream_unfold [OF r t f l] by simp
  then show ?thesis unfolding chat_stream_unfold [OF r t f l] by (simp add: format_sse_def)
qed

lemma execute_stream_event_order: "event_order (events (execute_stream P q sid uid))"
proof (cases rule: execute_stream_cases [of P q sid uid])
  case (intent_failed e tr)
  show ?thesis unfolding intent_failed(2)
    by (rule event_order_prefix) (simp_all add: format_sse_def)
next
  case (clarification ctx tr)
  show ?thesis unfolding clarification(3)
    by (rule event_order_prefix) (simp_all add: format_sse_def)
next
  case (retrieve_failed ctx tr e tr')
  show ?thesis unfolding retrieve_failed(4)
    by (rule event_order_prefix) (simp_all add: format_sse_def)
next
  case (completed ctx tr ctx' tr')
  show ?thesis
    by (rule event_orderI [OF completed(4)]) (simp_all add: format_sse_def)
qed

lemma execute_stream_last:
  assumes "raised (execute_stream P q sid uid) = None"
  shows "fst (last (events (execute_stream P q sid uid))) = ''done'' \<or>
         fst (last (events (execute_stream P q sid uid))) = ''clarification''"
proof (cases rule: execute_stream_cases [of P q sid uid])
  case (intent_failed e tr)
  with assms show ?thesis by simp
next
  case (clarification ctx tr)
  show ?thesis unfolding clarification(3) by (simp add: format_sse_def)
next
  case (retrieve_failed ctx tr e tr')
  with assms show ?thesis by simp
next
  case (completed ctx tr ctx' tr')
  show ?thesis unfolding completed(4) by (simp add: format_sse_def)
qed

lemma execute_stream_no_error:
  "''error'' \<notin> fst ` set (events (execute_stream P q sid uid))"
proof (cases rule: execute_stream_cases [of P q sid uid])
  case (intent_failed e tr)
  show ?thesis unfolding intent_failed(2) by (simp add: format_sse_def)
next
  case (clarification ctx tr)
  show ?thesis unfolding clarification(3) by (simp add: format_sse_def)
next
  case (retrieve_failed ctx tr e tr')
  show ?thesis unfolding retrieve_failed(4) by (simp add: format_sse_def)
next
  case (completed ctx tr ctx' tr')
  show ?thesis unfolding completed(4) by (auto simp: format_sse_def)
qed

lemma chat_retrieval_wired:
  assumes "retrieval S = retrieve E"
  shows "\<exists>docs rcalls. chat_retrieval S ir q = (docs, None, rcalls)"
  using assms by (simp add: chat_retrieval_def retrieve_def)

lemma chat_stream_no_error:
  assumes "retrieval S = retrieve E"
  shows "''error'' \<notin> fst ` set (events (chat_stream S q sid))"
proof -
  from chat_retrieval_wired [OF assms] obtain docs rcalls where
    r: "chat_retrieval S (fst (classify (validation S) (intent_chain S) q)) q = (docs, None, rcalls)"
    by blast
  from select_prompt_member obtain t where
    t: "t \<in> set (map snd prompt_templates)"
      "select_prompt (suggested_prompt_template (fst (classify (validation S) (intent_chain S) q))) = Inr t"
    by blast
  from format_messages_templates [OF t(1)] obtain sys where
    f: "format_messages [(''context'', format_docs (py_str S) docs), (''question'', q)] t =
       Inr [(''system'', sys), (''user'', q)]"
    by blast
  obtain chunks failure where l: "llm_astream S [(''system'', sys), (''user'', q)] = (chunks, failure)"
    by (cases "llm_astream S [(''system'', sys), (''user'', q)]")
  show ?thesis
    unfolding chat_stream_unfold [OF r t(2) f l]
    by (cases failure) (auto simp: format_sse_def)
qed

lemma chat_stream_failed:
  assumes "raised (chat_stream S q sid) = Some e"
  shows "''done'' \<notin> fst ` set (events (chat_stream S q sid)) \<and>
         (fst (last (events (chat_stream S q sid))) = ''status'' \<or>
          fst (last (events (chat_stream S q sid))) = ''token'')"
proof -
  from chat_prepared [of S q] obtain docs caught rcalls t sys where
    r: "chat_retrieval S (fst (classify (validation S) (intent_chain S) q)) q = (docs, caught, rcalls)" and
    t: "select_prompt (suggested_prompt_template (fst (classify (validation S) (intent_chain S) q))) = Inr t" and
    f: "format_messages [(''context'', format_docs (py_str S) docs), (''question'', q)] t =
          Inr [(''system'', sys), (''user'', q)]"
    by blast
  obtain chunks failure where l: "llm_astream S [(''system'', sys), (''user'', q)] = (chunks, failure)"
    by (cases "llm_astream S [(''system'', sys), (''user'', q)]")
  from assms have fl: "failure = Some e" unfolding chat_stream_unfold [OF r t f l] by simp
  have 1: "''done'' \<notin> fst ` set (events (chat_stream S q sid))"
    unfolding chat_stream_unfold [OF r t f l] fl
    by (cases caught) (auto simp: format_sse_def)
  have 2: "fst (last (events (chat_stream S q sid))) = ''status'' \<or>
          fst (last (events (chat_stream S q sid))) = ''token''"
    unfolding chat_stream_unfold [OF r t f l] fl
    by (cases "chunks = []") (simp_all add: format_sse_def last_map)
  from 1 2 show ?thesis ..
qed

lemma execute_stream_failed:
  assumes "raised (execute_stream P q sid uid) = Some e"
  shows "''done'' \<notin> fst ` set (events (execute_stream P q sid uid)) \<and>
         fst (last (events (execute_stream P q sid uid))) = ''status''"
proof (cases rule: execute_stream_cases [of P q sid uid])
  case (intent_failed e' tr)
  show ?thesis unfolding intent_failed(2) by (simp add: format_sse_def)
next
  case (clarification ctx tr)
  with assms show ?thesis by simp
next
  case (retrieve_failed ctx tr e' tr')
  show ?thesis unfolding retrieve_failed(4) by (simp add: format_sse_def)
next
  case (completed ctx tr ctx' tr')
  with assms show ?thesis by simp
qed

lemma chat_stream_raised:
  "\<exists>sys. raised (chat_stream S q sid) = snd (llm_astream S [(''system'', sys), (''user'', q)])"
proof -
  from chat_prepared [of S q] obtain docs caught rcalls t sys where
    r: "chat_retrieval S (fst (classify (validation S) (intent_chain S) q)) q = (docs, caught, rcalls)" and
    t: "select_prompt (suggested_prompt_template (fst (classify (validation S) (intent_chain S) q))) = Inr t" and
    f: "format_messages [(''context'', format_docs (py_str S) docs), (''question'', q)] t =
          Inr [(''system'', sys), (''user'', q)]"
    by blast
  obtain chunks failure where l: "llm_astream S [(''system'', sys), (''user'', q)] = (chunks, failure)"
    by (cases "llm_astream S [(''system'', sys), (''user'', q)]")
  have "raised (chat_stream S q sid) = failure"
    by (simp add: chat_stream_unfold [OF r t f l])
  also have "failure = snd (llm_astream S [(''system'', sys), (''user'', q)])"
    by (simp add: l)
  finally have "raised (chat_stream S q sid) = snd (llm_astream S [(''system'', sys), (''user'', q)])" .
  then show ?thesis by (intro exI [of _ sys])
qed

lemma gather_stub_ensemble:
  "gather (retrievers stub_ensemble) q =
     [Inr [\<lparr> page_content = ''alpha'', metadata = [(''source'', JStr ''a.py'')] \<rparr>],
      Inr [\<lparr> page_content = ''beta'', metadata = [(''source'', JStr ''b.py'')] \<rparr>]]"
  by (simp add: gather_def stub_ensemble_def)

lemma extend_all_stub_ensemble:
  "extend_all (gather (retrievers stub_ensemble) q) [] =
     [\<lparr> page_content = ''alpha'', metadata = [(''source'', JStr ''a.py'')] \<rparr>,
      \<lparr> page_content = ''beta'', metadata = [(''source'', JStr ''b.py'')] \<rparr>]"
  unfolding gather_stub_ensemble by simp

lemma retrieve_stub_ensemble:
  "retrieve stub_ensemble q =
     Inr [\<lparr> page_content = ''alpha'', metadata = [(''source'', JStr ''a.py'')] \<rparr>,
          \<lparr> page_content = ''beta'', metadata = [(''source'', JStr ''b.py'')] \<rparr>]"
  unfolding retrieve_def aget_relevant_documents_def extend_all_stub_ensemble rerank_def by simp

lemma classify_wired_bug_fix:
  "classify (validation (wired_services (Inr (classifier_reply ''bug_fix'' (9 / 10) ''bug_fix_v1'' False)) E so))
     (intent_chain (wired_services (Inr (classifier_reply ''bug_fix'' (9 / 10) ''bug_fix_v1'' False)) E so)) q =
   (\<lparr> intent = BUG_FIX, confidence = 9 / 10, entities = [],
      suggested_prompt_template = ''bug_fix_v1'', requires_clarification = False \<rparr>, [])"
  by (simp add: wired_services_def classifier_reply_def classify_def classify_try_def dict_get_def
      hashable_def value2member_def resolve_template_def truthy_def allowed_template_ids_def
      typed_validators_def)

lemma chat_stream_wired:
  "events (chat_stream
      (wired_services (Inr (classifier_reply ''bug_fix'' (9 / 10) ''bug_fix_v1'' False))
         stub_ensemble (chunks, failure))
      ''it crashes'' ''s1'') =
       [format_sse ''status'' [(''stage'', JStr ''intent_classify'')],
        format_sse ''status'' [(''stage'', JStr ''retrieving'')],
        format_sse ''retrieval''
          [(''found'', JNum 2), (''sources'', JArr [JStr ''a.py'', JStr ''b.py''])],
        format_sse ''status'' [(''stage'', JStr ''generating'')]] @
       map (\<lambda>chunk. format_sse ''token'' [(''content'', JStr chunk)]) chunks @
       (case failure of
          Some e \<Rightarrow> []
        | None \<Rightarrow>
            [format_sse ''done''
               [(''session_id'', JStr ''s1''),
                (''citations'',
                 JArr [JObj [(''source'', JStr ''a.py''), (''content'', JStr ''alpha...''),
                             (''relevance'', JNum 0)],
                       JObj [(''source'', JStr ''b.py''), (''content'', JStr ''beta...''),
                             (''relevance'', JNum 0)]])]])"
  "raised (chat_stream
      (wired_services (Inr (classifier_reply ''bug_fix'' (9 / 10) ''bug_fix_v1'' False))
         stub_ensemble (chunks, failure))
      ''it crashes'' ''s1'') = failure"
proof -
  let ?S = "wired_services (Inr (classifier_reply ''bug_fix'' (9 / 10) ''bug_fix_v1'' False))
         stub_ensemble (chunks, failure)"
  let ?docs = "[\<lparr> page_content = ''alpha'', metadata = [(''source'', JStr ''a.py'')] \<rparr>,
          \<lparr> page_content = ''beta'', metadata = [(''source'', JStr ''b.py'')] \<rparr>]"
  have rv: "retrieval ?S = retrieve stub_ensemble" by (simp add: wired_services_def)
  have r: "chat_retrieval ?S (fst (classify (validation ?S) (intent_chain ?S) ''it crashes'')) ''it crashes'' =
             (?docs, None, [Retrieve ''it crashes''])"
    unfolding classify_wired_bug_fix
    by (simp add: chat_retrieval_def rv retrieve_stub_ensemble)
  from select_prompt_member obtain t where
    t: "t \<in> set (map snd prompt_templates)"
      "select_prompt (suggested_prompt_template
         (fst (classify (validation ?S) (intent_chain ?S) ''it crashes''))) = Inr t"
    by blast
  from format_messages_templates [OF t(1)] obtain sys where
    f: "format_messages [(''context'', format_docs (py_str ?S) ?docs), (''question'', ''it crashes'')] t =
       Inr [(''system'', sys), (''user'', ''it crashes'')]"
    by blast
  have l: "llm_astream ?S [(''system'', sys), (''user'', ''it crashes'')] = (chunks, failure)"
    by (simp add: wired_services_def)
  show "events (chat_stream ?S ''it crashes'' ''s1'') =
       [format_sse ''status'' [(''stage'', JStr ''intent_classify'')],
        format_sse ''status'' [(''stage'', JStr ''retrieving'')],
        format_sse ''retrieval''
          [(''found'', JNum 2), (''sources'', JArr [JStr ''a.py'', JStr ''b.py''])],
        format_sse ''status'' [(''stage'', JStr ''generating'')]] @
       map (\<lambda>chunk. format_sse ''token'' [(''content'', JStr chunk)]) chunks @
       (case failure of
          Some e \<Rightarrow> []
        | None \<Rightarrow>
            [format_sse ''done''
               [(''session_id'', JStr ''s1''),
                (''citations'',
                 JArr [JObj [(''source'', JStr ''a.py''), (''content'', JStr ''alpha...''),
                             (''relevance'', JNum 0)],
                       JObj [(''source'', JStr ''b.py''), (''content'', JStr ''beta...''),
                             (''relevance'', JNum 0)]])]])"
    unfolding chat_stream_unfold [OF r t(2) f l] classify_wired_bug_fix
    by (cases failure) (simp_all add: doc_citations_def citation_json_def dict_get_def)
  show "raised (chat_stream ?S ''it crashes'' ''s1'') = failure"
    unfolding chat_stream_unfold [OF r t(2) f l] by simp
qed

text \<open>
  C2 (as stated, refuted). The claim: the stream of a query that needs no
  clarification terminates after a \<open>done\<close> or an \<open>error\<close> event. When the generation
  stream raises after its first chunk, \<open>chat_stream\<close> (with the retrieval service wired
  as in \<^verbatim>\<open>RAGService\<close>) has yielded five events, the last of them a \<open>token\<close> event, and
  ends by the exception: neither \<open>done\<close> nor \<open>error\<close> is ever emitted.
\<close>

theorem stream_ends_on_token_counterexample:
  "\<not> requires_clarification
       (fst (classify
          (validation (wired_services (Inr (classifier_reply ''bug_fix'' (9 / 10) ''bug_fix_v1'' False))
             stub_ensemble ([''It ''], Some (Raised ''connection reset''))))
          (intent_chain (wired_services (Inr (classifier_reply ''bug_fix'' (9 / 10) ''bug_fix_v1'' False))
             stub_ensemble ([''It ''], Some (Raised ''connection reset''))))
          ''it crashes'')) \<and>
   events (chat_stream
      (wired_services (Inr (classifier_reply ''bug_fix'' (9 / 10) ''bug_fix_v1'' False))
         stub_ensemble ([''It ''], Some (Raised ''connection reset'')))
      ''it crashes'' ''s1'') =
   [(''status'', JObj [(''stage'', JStr ''intent_classify'')]),
    (''status'', JObj [(''stage'', JStr ''retrieving'')]),
    (''retrieval'', JObj [(''found'', JNum 2), (''sources'', JArr [JStr ''a.py'', JStr ''b.py''])]),
    (''status'', JObj [(''stage'', JStr ''generating'')]),
    (''token'', JObj [(''content'', JStr ''It '')])] \<and>
   raised (chat_stream
      (wired_services (Inr (classifier_reply ''bug_fix'' (9 / 10) ''bug_fix_v1'' False))
         stub_ensemble ([''It ''], Some (Raised ''connection reset'')))
      ''it crashes'' ''s1'') = Some (Raised ''connection reset'')"
proof -
  let ?S = "wired_services (Inr (classifier_reply ''bug_fix'' (9 / 10) ''bug_fix_v1'' False))
         stub_ensemble ([''It ''], Some (Raised ''connection reset''))"
  have 1: "\<not> requires_clarification
       (fst (classify (validation ?S) (intent_chain ?S) ''it crashes''))"
    unfolding classify_wired_bug_fix by simp
  have 2: "events (chat_stream ?S ''it crashes'' ''s1'') =
   [(''status'', JObj [(''stage'', JStr ''intent_classify'')]),
    (''status'', JObj [(''stage'', JStr ''retrieving'')]),
    (''retrieval'', JObj [(''found'', JNum 2), (''sources'', JArr [JStr ''a.py'', JStr ''b.py''])]),
    (''status'', JObj [(''stage'', JStr ''generating'')]),
    (''token'', JObj [(''content'', JStr ''It '')])]"
    unfolding chat_stream_wired by (simp add: format_sse_def)
  have 3: "raised (chat_stream ?S ''it crashes'' ''s1'') = Some (Raised ''connection reset'')"
    unfolding chat_stream_wired by simp
  from 1 2 3 show ?thesis by (intro conjI)
qed

text \<open>
  C2 (amended). For every execution of \<open>chat_stream\<close> and of \<open>execute_stream\<close>, whose
  events form a finite list whenever the generation stream ends: the first event is a
  \<open>status\<close> event, every \<open>token\<close> event comes after a \<open>status\<close> event of stage
  \<open>generating\<close>, and a \<open>done\<close> event is the last event. A stream that ends without an
  exception ends with \<open>done\<close> (or, in \<open>execute_stream\<close>, with the \<open>clarification\<close>
  event). \<open>execute_stream\<close> yields no \<open>error\<close> event, and neither does \<open>chat_stream\<close>
  when its retrieval service is \<open>retrieve\<close> on an ensemble. The exception that ends
  \<open>chat_stream\<close> is the one of the generation stream; a stream ended by an exception
  has no \<open>done\<close> event and ends on a \<open>status\<close> or a \<open>token\<close> event.
\<close>

theorem stream_event_order:
  "event_order (events (chat_stream S q sid)) \<and>
   event_order (events (execute_stream P q sid uid)) \<and>
   (raised (chat_stream S q sid) = None \<longrightarrow>
      fst (last (events (chat_stream S q sid))) = ''done'') \<and>
   (raised (execute_stream P q sid uid) = None \<longrightarrow>
      fst (last (events (execute_stream P q sid uid))) = ''done'' \<or>
      fst (last (events (execute_stream P q sid uid))) = ''clarification'') \<and>
   ''error'' \<notin> fst ` set (events (execute_stream P q sid uid)) \<and>
   (retrieval S = retrieve E \<longrightarrow> ''error'' \<notin> fst ` set (events (chat_stream S q sid))) \<and>
   (\<exists>sys. raised (chat_stream S q sid) =
            snd (llm_astream S [(''system'', sys), (''user'', q)])) \<and>
   (\<forall>e. raised (chat_stream S q sid) = Some e \<longrightarrow>
        ''done'' \<notin> fst ` set (events (chat_stream S q sid)) \<and>
        (fst (last (events (chat_stream S q sid))) = ''status'' \<or>
         fst (last (events (chat_stream S q sid))) = ''token'')) \<and>
   (\<forall>e. raised (execute_stream P q sid uid) = Some e \<longrightarrow>
        ''done'' \<notin> fst ` set (events (execute_stream P q sid uid)) \<and>
        fst (last (events (execute_stream P q sid uid))) = ''status'')"
proof (intro conjI allI impI)
  show "event_order (events (chat_stream S q sid))" by (rule chat_stream_event_order)
  show "event_order (events (execute_stream P q sid uid))" by (rule execute_stream_event_order)
  show "\<exists>sys. raised (chat_stream S q sid) =
            snd (llm_astream S [(''system'', sys), (''user'', q)])"
    by (rule chat_stream_raised)
  show "''error'' \<notin> fst ` set (events (execute_stream P q sid uid))"
    by (rule execute_stream_no_error)
next
  assume "raised (chat_stream S q sid) = None"
  then show "fst (last (events (chat_stream S q sid))) = ''done''" by (rule chat_stream_done_last)
next
  assume "raised (execute_stream P q sid uid) = None"
  then show "fst (last (events (execute_stream P q sid uid))) = ''done'' \<or>
      fst (last (events (execute_stream P q sid uid))) = ''clarification''"
    by (rule execute_stream_last)
next
  assume "retrieval S = retrieve E"
  then show "''error'' \<notin> fst ` set (events (chat_stream S q sid))" by (rule chat_stream_no_error)
next
  fix e assume "raised (chat_stream S q sid) = Some e"
  then show "''done'' \<notin> fst ` set (events (chat_stream S q sid))"
    by (rule chat_stream_failed [THEN conjunct1])
next
  fix e assume "raised (chat_stream S q sid) = Some e"
  then show "fst (last (events (chat_stream S q sid))) = ''status'' \<or>
         fst (last (events (chat_stream S q sid))) = ''token''"
    by (rule chat_stream_failed [THEN conjunct2])
next
  fix e assume "raised (execute_stream P q sid uid) = Some e"
  then show "''done'' \<notin> fst ` set (events (execute_stream P q sid uid))"
    by (rule execute_stream_failed [THEN conjunct1])
next
  fix e assume "raised (execute_stream P q sid uid) = Some e"
  then show "fst (last (events (execute_stream P q sid uid))) = ''status''"
    by (rule execute_stream_failed [THEN conjunct2])
qed

theorem stream_event_order_witness:
  "retrieval
     (wired_services (Inr (classifier_reply ''bug_fix'' (9 / 10) ''bug_fix_v1'' False))
        stub_ensemble ([''It '', ''parses.''], None)) = retrieve stub_ensemble \<and>
   raised (chat_stream
     (wired_services (Inr (classifier_reply ''bug_fix'' (9 / 10) ''bug_fix_v1'' False))
        stub_ensemble ([''It '', ''parses.''], None))
     ''it crashes'' ''s1'') = None \<and>
   event_order
     (events (chat_stream
        (wired_services (Inr (classifier_reply ''bug_fix'' (9 / 10) ''bug_fix_v1'' False))
           stub_ensemble ([''It '', ''parses.''], None))
        ''it crashes'' ''s1'')) \<and>
   ''error'' \<notin> fst ` set
     (events (chat_stream
        (wired_services (Inr (classifier_reply ''bug_fix'' (9 / 10) ''bug_fix_v1'' False))
           stub_ensemble ([''It '', ''parses.''], None))
        ''it crashes'' ''s1'')) \<and>
   map fst
     (events (chat_stream
        (wired_services (Inr (classifier_reply ''bug_fix'' (9 / 10) ''bug_fix_v1'' False))
           stub_ensemble ([''It '', ''parses.''], None))
        ''it crashes'' ''s1'')) =
     [''status'', ''status'', ''retrieval'', ''status'', ''token'', ''token'', ''done''] \<and>
   raised (chat_stream
     (wired_services (Inr (classifier_reply ''bug_fix'' (9 / 10) ''bug_fix_v1'' False))
        stub_ensemble ([''It ''], Some (Raised ''connection reset'')))
     ''it crashes'' ''s1'') = Some (Raised ''connection reset'') \<and>
   ''done'' \<notin> fst ` set
     (events (chat_stream
        (wired_services (Inr (classifier_reply ''bug_fix'' (9 / 10) ''bug_fix_v1'' False))
           stub_ensemble ([''It ''], Some (Raised ''connection reset'')))
        ''it crashes'' ''s1'')) \<and>
   event_order
     (events (execute_stream
        (stub_pipeline
           \<lparr> intent = BUG_FIX, confidence = 9 / 10, entities = [],
             suggested_prompt_template = ''bug_fix_v1'', requires_clarification = False \<rparr> [])
        ''it crashes'' ''s1'' None)) \<and>
   map fst
     (events (execute_stream
        (stub_pipeline
           \<lparr> intent = BUG_FIX, confidence = 9 / 10, entities = [],
             suggested_prompt_template = ''bug_fix_v1'', requires_clarification = False \<rparr> [])
        ''it crashes'' ''s1'' None)) =
     [''status'', ''status'', ''retrieval'', ''status'',
      ''token'', ''token'', ''token'', ''token'', ''token'', ''done'']"
proof -
  let ?S = "wired_services (Inr (classifier_reply ''bug_fix'' (9 / 10) ''bug_fix_v1'' False))
        stub_ensemble ([''It '', ''parses.''], None)"
  let ?F = "wired_services (Inr (classifier_reply ''bug_fix'' (9 / 10) ''bug_fix_v1'' False))
        stub_ensemble ([''It ''], Some (Raised ''connection reset''))"
  let ?P = "stub_pipeline
           \<lparr> intent = BUG_FIX, confidence = 9 / 10, entities = [],
             suggested_prompt_template = ''bug_fix_v1'', requires_clarification = False \<rparr> []"
  note th = stream_event_order [of ?S "''it crashes''" "''s1''" ?P None stub_ensemble]
  note tf = stream_event_order [of ?F "''it crashes''" "''s1''" ?P None stub_ensemble]
  have 0: "retrieval ?S = retrieve stub_ensemble" by (simp add: wired_services_def)
  have 1: "raised (chat_stream ?S ''it crashes'' ''s1'') = None"
    unfolding chat_stream_wired by simp
  have 2: "event_order (events (chat_stream ?S ''it crashes'' ''s1''))"
    by (rule th [THEN conjunct1])
  have 3: "''error'' \<notin> fst ` set (events (chat_stream ?S ''it crashes'' ''s1''))"
    by (rule th [THEN conjunct2, THEN conjunct2, THEN conjunct2, THEN conjunct2, THEN conjunct2,
          THEN conjunct1, THEN mp, OF 0])
  have 4: "map fst (events (chat_stream ?S ''it crashes'' ''s1'')) =
     [''status'', ''status'', ''retrieval'', ''status'', ''token'', ''token'', ''done'']"
    unfolding chat_stream_wired by (simp add: format_sse_def)
  have 5: "raised (chat_stream ?F ''it crashes'' ''s1'') = Some (Raised ''connection reset'')"
    unfolding chat_stream_wired by simp
  have 6: "''done'' \<notin> fst ` set (events (chat_stream ?F ''it crashes'' ''s1''))"
    by (rule tf [THEN conjunct2, THEN conjunct2, THEN conjunct2, THEN conjunct2, THEN conjunct2,
          THEN conjunct2, THEN conjunct2, THEN conjunct1, THEN spec, THEN mp, OF 5, THEN conjunct1])
  have 7: "event_order (events (execute_stream ?P ''it crashes'' ''s1'' None))"
    by (rule th [THEN conjunct2, THEN conjunct1])
  have 8: "map fst (events (execute_stream ?P ''it crashes'' ''s1'' None)) =
     [''status'', ''status'', ''retrieval'', ''status'',
      ''token'', ''token'', ''token'', ''token'', ''token'', ''done'']"
    by (simp add: execute_stream_def execute_stage_def then_stage_def stub_pipeline_def
        needs_clarification_def new_context_def execute_stream_stage_def format_sse_def Let_def)
  from 0 1 2 3 4 5 6 7 8 show ?thesis by (intro conjI)
qed

end
